theory Spec2Isabelle
  imports Complex_Main "HOL-Library.Sublist"
begin

section \<open>Python values\<close>

text \<open>
  A Python \<open>str\<close> is a sequence of Unicode code points, so it is modelled as a list of
  natural numbers; \<open>len\<close>, slicing, \<open>in\<close> and \<open>==\<close> then count what Python counts.
  \<open>lit\<close> turns an Isabelle string literal (ASCII) into such a sequence.
\<close>

type_synonym str = "nat list"

definition lit :: "string \<Rightarrow> str" where
  "lit cs = map of_char cs"

text \<open>
  \<open>str.lower()\<close>. The mapping is the one of CPython for every code point below 256
  (\<open>A-Z\<close> and the Latin-1 capitals \<open>0xC0-0xDE\<close> without the multiplication sign
  \<open>0xD7\<close>); the case tables of the rest of Unicode are not modelled and a code point
  from 256 on is left as it is.
\<close>

definition lower_cp :: "nat \<Rightarrow> nat" where
  "lower_cp c =
     (if (65 \<le> c \<and> c \<le> 90) \<or> (192 \<le> c \<and> c \<le> 222 \<and> c \<noteq> 215) then c + 32 else c)"

definition lower :: "str \<Rightarrow> str" where
  "lower s = map lower_cp s"

text \<open>The operator \<open>sub in s\<close> on two strings: \<open>sub\<close> occurs in \<open>s\<close> as a contiguous run.\<close>

fun str_in :: "str \<Rightarrow> str \<Rightarrow> bool" where
  "str_in sub [] = (sub = [])"
| "str_in sub (c # cs) = (prefix sub (c # cs) \<or> str_in sub cs)"

text \<open>
  The values \<open>json.loads\<close> produces. A Python \<open>float\<close> is kept as the text of its literal
  (no floating-point arithmetic is done on it anywhere in the program); a \<open>dict\<close> is an
  association list with distinct keys in insertion order.
\<close>

datatype json =
    JNull
  | JBool bool
  | JInt int
  | JFloat str
  | JStr str
  | JArr "json list"
  | JObj "(str \<times> json) list"

type_synonym pydict = "(str \<times> json) list"

text \<open>\<open>d.get(k, default)\<close> and \<open>k in d\<close> on a dict.\<close>

definition dict_get :: "pydict \<Rightarrow> str \<Rightarrow> json \<Rightarrow> json" where
  "dict_get d k dflt = (case map_of d k of Some v \<Rightarrow> v | None \<Rightarrow> dflt)"

definition dict_has :: "pydict \<Rightarrow> str \<Rightarrow> bool" where
  "dict_has d k = (map_of d k \<noteq> None)"

text \<open>\<open>type(v).__name__\<close>, as it appears in the message of an \<open>AttributeError\<close>.\<close>

fun type_name :: "json \<Rightarrow> str" where
  "type_name JNull = lit ''NoneType''"
| "type_name (JBool b) = lit ''bool''"
| "type_name (JInt i) = lit ''int''"
| "type_name (JFloat f) = lit ''float''"
| "type_name (JStr s) = lit ''str''"
| "type_name (JArr xs) = lit ''list''"
| "type_name (JObj d) = lit ''dict''"

text \<open>Exceptions are values; each carries \<open>str(e)\<close>.\<close>

datatype py_error = AttributeError str | TypeError str

fun error_str :: "py_error \<Rightarrow> str" where
  "error_str (AttributeError m) = m"
| "error_str (TypeError m) = m"

definition no_attribute :: "json \<Rightarrow> string \<Rightarrow> py_error" where
  "no_attribute v attr =
     AttributeError ([39] @ type_name v @ lit ''' object has no attribute '' @ [39] @ lit attr @ [39])"


section \<open>Menu Validator: \<open>MenuGenerator._validate_menu_items\<close>\<close>

text \<open>The icons are single emoji; they are written by code point.\<close>

definition icon_clipboard :: str where "icon_clipboard = [0x1F4CB]"
definition icon_arrow :: str where "icon_arrow = [0x27A1, 0xFE0F]"
definition icon_magnifier :: str where "icon_magnifier = [0x1F50D]"
definition icon_page :: str where "icon_page = [0x1F4C4]"
definition icon_books :: str where "icon_books = [0x1F4DA]"

definition validated_item :: "pydict \<Rightarrow> pydict" where
  "validated_item item =
     [(lit ''title'', dict_get item (lit ''title'') (JStr (lit ''Unknown Action''))),
      (lit ''prompt'', dict_get item (lit ''prompt'') (JStr (lit ''Execute this action''))),
      (lit ''tools'', dict_get item (lit ''tools'') (JArr [])),
      (lit ''alt'', dict_get item (lit ''alt'') (dict_get item (lit ''title'') (JStr (lit ''Action'')))),
      (lit ''icon'', dict_get item (lit ''icon'') (JStr icon_clipboard))]"

fun validate_menu_items :: "json list \<Rightarrow> pydict list" where
  "validate_menu_items [] = []"
| "validate_menu_items (JObj item # items) =
     (if dict_has item (lit ''title'')
      then validated_item item # validate_menu_items items
      else validate_menu_items items)"
| "validate_menu_items (other # items) = validate_menu_items items"


section \<open>Dedup Filter: \<open>MenuGenerator._filter_completed_actions\<close>\<close>

definition duplicate_keywords :: "(str \<times> str) list" where
  "duplicate_keywords =
     [(lit ''research'', lit ''research''), (lit ''analyze'', lit ''analyz''),
      (lit ''identify'', lit ''identif''), (lit ''develop'', lit ''develop''),
      (lit ''create'', lit ''creat''), (lit ''design'', lit ''design'')]"

text \<open>The first test of the inner loop body: equal titles, or one contained in the other.\<close>

definition similar_title :: "str \<Rightarrow> str \<Rightarrow> bool" where
  "similar_title item_title completed_lower =
     (item_title = completed_lower \<or> str_in item_title completed_lower
      \<or> str_in completed_lower item_title)"

text \<open>The loop over \<open>duplicate_keywords\<close>, which stops at the first pair that matches.\<close>

definition keyword_duplicate :: "str \<Rightarrow> str \<Rightarrow> bool" where
  "keyword_duplicate item_title completed_lower =
     list_ex (\<lambda>(keyword1, keyword2). str_in keyword1 item_title \<and> str_in keyword2 completed_lower)
       duplicate_keywords"

text \<open>
  The loop over \<open>completed_actions\<close>: \<open>is_duplicate\<close> becomes true at the first completed
  entry that matches under either test, and the loop is left there.
\<close>

fun is_duplicate :: "str \<Rightarrow> str list \<Rightarrow> bool" where
  "is_duplicate item_title [] = False"
| "is_duplicate item_title (completed # rest) =
     (let completed_lower = lower completed in
        if similar_title item_title completed_lower then True
        else if keyword_duplicate item_title completed_lower then True
        else is_duplicate item_title rest)"

text \<open>
  The loop over \<open>menu_items\<close>. \<open>item.get("title", "").lower()\<close> raises \<open>AttributeError\<close>
  when the title is not a string; the first such item ends the whole call.
\<close>

fun filter_items :: "pydict list \<Rightarrow> str list \<Rightarrow> py_error + pydict list" where
  "filter_items [] completed_actions = Inr []"
| "filter_items (item # items) completed_actions =
     (case dict_get item (lit ''title'') (JStr []) of
        JStr t \<Rightarrow>
          (let item_title = lower t in
             case filter_items items completed_actions of
               Inl e \<Rightarrow> Inl e
             | Inr filtered \<Rightarrow>
                 Inr (if is_duplicate item_title completed_actions then filtered
                      else item # filtered))
      | v \<Rightarrow> Inl (no_attribute v ''lower''))"

definition progression_actions :: "pydict list" where
  "progression_actions =
     [[(lit ''title'', JStr (lit ''Next Phase'')),
       (lit ''prompt'', JStr (lit ''Move to the next phase of this workflow based on completed work'')),
       (lit ''tools'', JArr [JStr (lit ''planning'')]),
       (lit ''alt'', JStr (lit ''Advance to the next stage'')),
       (lit ''icon'', JStr icon_arrow)],
      [(lit ''title'', JStr (lit ''Deep Dive'')),
       (lit ''prompt'', JStr (lit ''Explore the most promising aspect from previous work in greater detail'')),
       (lit ''tools'', JArr [JStr (lit ''analysis'')]),
       (lit ''alt'', JStr (lit ''Go deeper on key findings'')),
       (lit ''icon'', JStr icon_magnifier)],
      [(lit ''title'', JStr (lit ''Create Deliverable'')),
       (lit ''prompt'', JStr (lit ''Generate a concrete output based on the work completed so far'')),
       (lit ''tools'', JArr [JStr (lit ''creation'')]),
       (lit ''alt'', JStr (lit ''Produce tangible results'')),
       (lit ''icon'', JStr icon_page)]]"

text \<open>
  \<open>action["title"]\<close> of a progression action is one of the three string constants above, so
  the lookup cannot fail there.
\<close>

definition title_of :: "pydict \<Rightarrow> str" where
  "title_of action = (case dict_get action (lit ''title'') (JStr []) of JStr t \<Rightarrow> t | _ \<Rightarrow> [])"

definition get_progression_actions :: "str list \<Rightarrow> pydict list" where
  "get_progression_actions completed_actions =
     filter (\<lambda>action. \<not> list_ex (\<lambda>completed. str_in (lower (title_of action)) (lower completed))
                                  completed_actions)
       progression_actions"

definition filter_completed_actions :: "pydict list \<Rightarrow> str list \<Rightarrow> py_error + pydict list" where
  "filter_completed_actions menu_items completed_actions =
     (if completed_actions = [] then Inr menu_items
      else case filter_items menu_items completed_actions of
             Inl e \<Rightarrow> Inl e
           | Inr filtered_items \<Rightarrow>
               Inr (take 5 (if length filtered_items < 2
                            then filtered_items @ get_progression_actions completed_actions
                            else filtered_items)))"


section \<open>Fallback menu: \<open>MenuGenerator._generate_fallback_menu\<close>\<close>

definition base_actions :: "str \<Rightarrow> str \<Rightarrow> pydict list" where
  "base_actions role context =
     [[(lit ''title'', JStr (lit ''Analyze Current State'')),
       (lit ''prompt'', JStr (lit ''Analyze the current situation for a '' @ role @ lit '': '' @ context)),
       (lit ''tools'', JArr [JStr (lit ''analysis'')]),
       (lit ''alt'', JStr (lit ''Evaluate the present situation'')),
       (lit ''icon'', JStr icon_magnifier)],
      [(lit ''title'', JStr (lit ''Strategic Planning'')),
       (lit ''prompt'', JStr (lit ''Create a strategic plan for a '' @ role @ lit '' dealing with: '' @ context)),
       (lit ''tools'', JArr [JStr (lit ''planning'')]),
       (lit ''alt'', JStr (lit ''Develop strategic approach'')),
       (lit ''icon'', JStr icon_clipboard)],
      [(lit ''title'', JStr (lit ''Research Options'')),
       (lit ''prompt'', JStr (lit ''Research available options for a '' @ role @ lit '' in this context: '' @ context)),
       (lit ''tools'', JArr [JStr (lit ''research'')]),
       (lit ''alt'', JStr (lit ''Investigate possibilities'')),
       (lit ''icon'', JStr icon_books)],
      [(lit ''title'', JStr (lit ''Create Deliverable'')),
       (lit ''prompt'', JStr (lit ''Generate a concrete deliverable for a '' @ role @ lit '' on: '' @ context)),
       (lit ''tools'', JArr [JStr (lit ''creation'')]),
       (lit ''alt'', JStr (lit ''Produce tangible output'')),
       (lit ''icon'', JStr icon_page)],
      [(lit ''title'', JStr (lit ''Next Steps'')),
       (lit ''prompt'', JStr (lit ''Determine next steps for a '' @ role @ lit '' regarding: '' @ context)),
       (lit ''tools'', JArr [JStr (lit ''planning'')]),
       (lit ''alt'', JStr (lit ''Identify immediate actions'')),
       (lit ''icon'', JStr icon_arrow)]]"

definition generate_fallback_menu :: "str \<Rightarrow> str \<Rightarrow> str list \<Rightarrow> py_error + pydict list" where
  "generate_fallback_menu role context completed_actions =
     filter_completed_actions (base_actions role context) completed_actions"


section \<open>The standard library's JSON decoder: \<open>json.loads\<close>\<close>

text \<open>
  \<open>json.loads\<close> belongs to the Python standard library, not to the repository. It is
  modelled after \<open>json/scanner.py\<close> and \<open>json/decoder.py\<close> of CPython 3.11 with the
  default settings (\<open>strict\<close>, no hooks), as a function on the remaining input instead of
  an index into it. \<open>None\<close> stands for \<open>JSONDecodeError\<close>. Digits are the ASCII digits
  and a \<open>\u\<close> escape takes exactly four hexadecimal digits, as in the C scanner that
  CPython runs. The resource limits of the interpreter (recursion depth, the length
  limit on integer literals) are not modelled.
\<close>

definition is_ws :: "nat \<Rightarrow> bool" where
  "is_ws c = (c = 32 \<or> c = 9 \<or> c = 10 \<or> c = 13)"

definition skip_ws :: "str \<Rightarrow> str" where
  "skip_ws cs = dropWhile is_ws cs"

definition is_digit :: "nat \<Rightarrow> bool" where
  "is_digit c = (48 \<le> c \<and> c \<le> 57)"

definition hex_value :: "nat \<Rightarrow> nat option" where
  "hex_value c =
     (if 48 \<le> c \<and> c \<le> 57 then Some (c - 48)
      else if 97 \<le> c \<and> c \<le> 102 then Some (c - 87)
      else if 65 \<le> c \<and> c \<le> 70 then Some (c - 55)
      else None)"

text \<open>\<open>_decode_uXXXX\<close>: the four characters after the \<open>u\<close>.\<close>

definition decode_uXXXX :: "str \<Rightarrow> nat option" where
  "decode_uXXXX cs =
     (case map hex_value (take 4 cs) of
        [Some a, Some b, Some c, Some d] \<Rightarrow> Some (((a * 16 + b) * 16 + c) * 16 + d)
      | _ \<Rightarrow> None)"

text \<open>The table \<open>BACKSLASH\<close> of the one-letter escapes.\<close>

definition backslash :: "nat \<Rightarrow> nat option" where
  "backslash esc =
     (if esc = 34 then Some 34 else if esc = 92 then Some 92 else if esc = 47 then Some 47
      else if esc = 98 then Some 8 else if esc = 102 then Some 12 else if esc = 110 then Some 10
      else if esc = 114 then Some 13 else if esc = 116 then Some 9 else None)"

text \<open>
  What follows a backslash inside a string: the character the escape stands for and the
  input after the escape. Code 117 is the letter u; a high surrogate followed by an
  escaped low surrogate is joined with it into one code point.
\<close>

definition unescape :: "str \<Rightarrow> (nat \<times> str) option" where
  "unescape cs =
     (case cs of
        [] \<Rightarrow> None
      | esc # cs' \<Rightarrow>
          if esc \<noteq> 117 then
            (case backslash esc of None \<Rightarrow> None | Some ch \<Rightarrow> Some (ch, cs'))
          else
            (case decode_uXXXX cs' of
               None \<Rightarrow> None
             | Some uni \<Rightarrow>
                 (let r = drop 4 cs' in
                    if 0xD800 \<le> uni \<and> uni \<le> 0xDBFF \<and> take 2 r = [92, 117] then
                      (case decode_uXXXX (drop 2 r) of
                         None \<Rightarrow> None
                       | Some uni2 \<Rightarrow>
                           if 0xDC00 \<le> uni2 \<and> uni2 \<le> 0xDFFF
                           then Some (0x10000 + ((uni - 0xD800) * 1024 + (uni2 - 0xDC00)), drop 6 r)
                           else Some (uni, r))
                    else Some (uni, r))))"

lemma unescape_shorter: "unescape cs = Some (ch, r) \<Longrightarrow> length r < length cs"
  unfolding unescape_def
  by (cases cs) (auto simp: Let_def split: if_splits option.splits)

text \<open>
  \<open>scanstring\<close>, entered after the opening quote: the decoded string and the input after
  the closing quote. Code 34 is the double quote, 92 the backslash; a control character
  (below 32) inside a string is an error.
\<close>

function scanstring :: "str \<Rightarrow> str \<Rightarrow> (str \<times> str) option" where
  "scanstring chunks [] = None"
| "scanstring chunks (c # cs) =
     (if c = 34 then Some (chunks, cs)
      else if c = 92 then
        (case unescape cs of
           None \<Rightarrow> None
         | Some (ch, r) \<Rightarrow> scanstring (chunks @ [ch]) r)
      else if c < 32 then None
      else scanstring (chunks @ [c]) cs)"
  by pat_completeness auto
termination
  by (relation "measure (\<lambda>(chunks, cs). length cs)") (auto dest: unescape_shorter)

text \<open>
  \<open>NUMBER_RE\<close>, matched at the head of the input: an optional minus sign, \<open>0\<close> or a
  digit run that does not start with \<open>0\<close>, then an optional fraction and an optional
  exponent, each taken only when at least one digit follows.
\<close>

definition dec_value :: "str \<Rightarrow> int" where
  "dec_value ds = foldl (\<lambda>a d. 10 * a + int (d - 48)) 0 ds"

definition match_frac :: "str \<Rightarrow> str \<times> str" where
  "match_frac cs =
     (case cs of
        dot # d # r \<Rightarrow>
          if dot = 46 \<and> is_digit d
          then (dot # d # takeWhile is_digit r, dropWhile is_digit r) else ([], cs)
      | _ \<Rightarrow> ([], cs))"

definition match_exp :: "str \<Rightarrow> str \<times> str" where
  "match_exp cs =
     (case cs of
        [] \<Rightarrow> ([], cs)
      | e # r \<Rightarrow>
          if e = 101 \<or> e = 69 then
            (let sign = (case r of [] \<Rightarrow> [] | s # r' \<Rightarrow> if s = 45 \<or> s = 43 then [s] else []);
                 ds = drop (length sign) r
             in if ds \<noteq> [] \<and> is_digit (hd ds)
                then (e # sign @ takeWhile is_digit ds, dropWhile is_digit ds) else ([], cs))
          else ([], cs))"

definition match_number :: "str \<Rightarrow> (json \<times> str) option" where
  "match_number cs =
     (let minus = (case cs of [] \<Rightarrow> [] | m # r \<Rightarrow> if m = 45 then [m] else []);
          r0 = drop (length minus) cs
      in case r0 of
           [] \<Rightarrow> None
         | d # r1 \<Rightarrow>
             if \<not> is_digit d then None
             else
               (let digits = (if d = 48 then [d] else d # takeWhile is_digit r1);
                    r2 = (if d = 48 then r1 else dropWhile is_digit r1);
                    (frac, r3) = match_frac r2;
                    (exp, r4) = match_exp r3
                in if frac \<noteq> [] \<or> exp \<noteq> []
                   then Some (JFloat (minus @ digits @ frac @ exp), r4)
                   else Some (JInt (if minus = [] then dec_value digits else - dec_value digits), r4)))"

text \<open>\<open>dict(pairs)\<close>: a repeated key keeps its first position and takes the last value.\<close>

fun dict_set :: "pydict \<Rightarrow> str \<Rightarrow> json \<Rightarrow> pydict" where
  "dict_set [] k v = [(k, v)]"
| "dict_set ((k', v') # d) k v = (if k' = k then (k, v) # d else (k', v') # dict_set d k v)"

definition dict_of_pairs :: "(str \<times> json) list \<Rightarrow> pydict" where
  "dict_of_pairs pairs = foldl (\<lambda>d (k, v). dict_set d k v) [] pairs"

lemma scanstring_shorter: "scanstring chunks cs = Some (s, r) \<Longrightarrow> length r < length cs"
proof (induction chunks cs rule: scanstring.induct)
  case (1 chunks)
  then show ?case by simp
next
  case (2 chunks c cs)
  show ?case
  proof (cases "c = 34")
    case True
    with 2 show ?thesis by simp
  next
    case nq: False
    show ?thesis
    proof (cases "c = 92")
      case True
      with nq 2 show ?thesis
        by (fastforce split: option.splits dest: unescape_shorter)
    next
      case False
      with nq 2 show ?thesis
        by (auto split: if_splits)
    qed
  qed
qed

lemma skip_ws_Cons: "skip_ws cs = c # r \<Longrightarrow> length r < length cs"
  using length_dropWhile_le [of is_ws cs] by (simp add: skip_ws_def)

lemma skip_ws_less: "length r < n \<Longrightarrow> length (skip_ws r) < n"
  using length_dropWhile_le [of is_ws r] by (simp add: skip_ws_def)

lemma skip_ws_bound: "length r < length (skip_ws cs) \<Longrightarrow> length r < length cs"
  using length_dropWhile_le [of is_ws cs] by (simp add: skip_ws_def)

lemma skip_ws_length: "length (skip_ws cs) \<le> length cs"
  by (simp add: skip_ws_def length_dropWhile_le)

text \<open>
  \<open>scan_once\<close> with the loop of \<open>JSONArray\<close> (\<open>parse_array_items\<close>, entered where a value
  is expected) and the loop of \<open>JSONObject\<close> (\<open>parse_object_pairs\<close>, entered after the
  opening quote of a key). Codes: 123 and 125 the braces, 91 and 93 the brackets, 44 the comma,
  58 the colon. The tests \<open>length r < length cs\<close> on what a nested value leaves make the
  recursion well-founded; \<open>scan_once_shorter\<close> below shows that they always succeed.
\<close>

function scan_once :: "str \<Rightarrow> (json \<times> str) option"
  and parse_array_items :: "json list \<Rightarrow> str \<Rightarrow> (json \<times> str) option"
  and parse_object_pairs :: "(str \<times> json) list \<Rightarrow> str \<Rightarrow> (json \<times> str) option"
where
  "scan_once cs =
     (case cs of
        [] \<Rightarrow> None
      | nextchar # rest \<Rightarrow>
          if nextchar = 34 then
            (case scanstring [] rest of None \<Rightarrow> None | Some (s, r) \<Rightarrow> Some (JStr s, r))
          else if nextchar = 123 then
            (case skip_ws rest of
               [] \<Rightarrow> None
             | c # r \<Rightarrow>
                 if c = 125 then Some (JObj [], r)
                 else if c = 34 then parse_object_pairs [] r
                 else None)
          else if nextchar = 91 then
            (case skip_ws rest of
               [] \<Rightarrow> None
             | c # r \<Rightarrow>
                 if c = 93 then Some (JArr [], r)
                 else parse_array_items [] (c # r))
          else if take 4 cs = lit ''null'' then Some (JNull, drop 4 cs)
          else if take 4 cs = lit ''true'' then Some (JBool True, drop 4 cs)
          else if take 5 cs = lit ''false'' then Some (JBool False, drop 5 cs)
          else
            (case match_number cs of
               Some res \<Rightarrow> Some res
             | None \<Rightarrow>
                 if take 3 cs = lit ''NaN'' then Some (JFloat (lit ''NaN''), drop 3 cs)
                 else if take 8 cs = lit ''Infinity'' then Some (JFloat (lit ''Infinity''), drop 8 cs)
                 else if take 9 cs = lit ''-Infinity'' then Some (JFloat (lit ''-Infinity''), drop 9 cs)
                 else None))"
| "parse_array_items values cs =
     (case scan_once cs of
        None \<Rightarrow> None
      | Some (v, r0) \<Rightarrow>
          if length r0 < length cs then
            (case skip_ws r0 of
               [] \<Rightarrow> None
             | c # r \<Rightarrow>
                 if c = 93 then Some (JArr (values @ [v]), r)
                 else if c \<noteq> 44 then None
                 else parse_array_items (values @ [v]) (skip_ws r))
          else None)"
| "parse_object_pairs pairs cs =
     (case scanstring [] cs of
        None \<Rightarrow> None
      | Some (key, r0) \<Rightarrow>
          (case skip_ws r0 of
             [] \<Rightarrow> None
           | colon # r1 \<Rightarrow>
               if colon \<noteq> 58 then None
               else
                 (case scan_once (skip_ws r1) of
                    None \<Rightarrow> None
                  | Some (v, r2) \<Rightarrow>
                      if length r2 < length (skip_ws r1) then
                        (case skip_ws r2 of
                           [] \<Rightarrow> None
                         | c # r3 \<Rightarrow>
                             if c = 125 then Some (JObj (dict_of_pairs (pairs @ [(key, v)])), r3)
                             else if c \<noteq> 44 then None
                             else
                               (case skip_ws r3 of
                                  [] \<Rightarrow> None
                                | q # r4 \<Rightarrow>
                                    if q = 34 then parse_object_pairs (pairs @ [(key, v)]) r4
                                    else None))
                      else None)))"
  by pat_completeness auto

termination
  by (relation "measures [\<lambda>x. case x of
            Inl cs \<Rightarrow> length cs
          | Inr (Inl (values, cs)) \<Rightarrow> length cs
          | Inr (Inr (pairs, cs)) \<Rightarrow> length cs,
        \<lambda>x. case x of Inl cs \<Rightarrow> 0 | Inr y \<Rightarrow> 1]")
     (auto dest!: scanstring_shorter skip_ws_Cons skip_ws_bound intro!: skip_ws_less)

declare scan_once.simps [simp del] parse_array_items.simps [simp del]
  parse_object_pairs.simps [simp del]

text \<open>
  \<open>json.loads\<close> (\<open>JSONDecoder.decode\<close>): a leading byte-order mark is refused, white space
  around the value is skipped, and anything else after the value is an error.
\<close>

definition json_loads :: "str \<Rightarrow> json option" where
  "json_loads s =
     (if take 1 s = [0xFEFF] then None
      else case scan_once (skip_ws s) of
             None \<Rightarrow> None
           | Some (obj, r) \<Rightarrow> if skip_ws r = [] then Some obj else None)"


section \<open>Response Normalizer: the JSON extraction of \<open>OllamaClient.generate_json_response\<close>\<close>

text \<open>
  \<open>re.search(r'\{.*\}', response_text, re.DOTALL)\<close>: with \<open>DOTALL\<close> the dot matches every
  character, so the leftmost, greedy match runs from the first opening brace to the last
  closing brace after it. There is no match when no closing brace follows the first
  opening brace.
\<close>

definition json_match :: "str \<Rightarrow> str option" where
  "json_match response_text =
     (case dropWhile (\<lambda>c. c \<noteq> 123) response_text of
        [] \<Rightarrow> None
      | opening # rest \<Rightarrow>
          if 125 \<in> set rest
          then Some (opening # rev (dropWhile (\<lambda>c. c \<noteq> 125) (rev rest)))
          else None)"

definition parse_failure :: "str \<Rightarrow> json" where
  "parse_failure response_text =
     JObj [(lit ''error'', JStr (lit ''Failed to parse JSON response'')),
           (lit ''raw_response'', JStr response_text)]"

text \<open>Lines 145-162 of \<open>ollama_client.py\<close>, applied to the text the model returned.\<close>

definition extract_json :: "str \<Rightarrow> json" where
  "extract_json response_text =
     (case json_loads response_text of
        Some v \<Rightarrow> v
      | None \<Rightarrow>
          (case json_match response_text of
             Some m \<Rightarrow>
               (case json_loads m of
                  Some v \<Rightarrow> v
                | None \<Rightarrow> parse_failure response_text)
           | None \<Rightarrow> parse_failure response_text))"


section \<open>Model Gateway: \<open>OllamaClient\<close>\<close>

text \<open>A chat message is the dict \<open>{"role": ..., "content": ...}\<close>.\<close>

record message =
  msg_role :: str
  msg_content :: str

text \<open>
  What \<open>session.post\<close> is called with: the URL, the JSON payload (model, messages, stream
  flag and the two options) and the timeout. The temperature is a decimal constant that
  is only passed on.
\<close>

record chat_request =
  req_url :: str
  req_model :: str
  req_messages :: "message list"
  req_stream :: bool
  req_temperature :: real
  req_num_predict :: int
  req_timeout :: nat

text \<open>
  The HTTP exchange is the environment. Its outcome is \<open>requests.exceptions.Timeout\<close>,
  \<open>requests.exceptions.ConnectionError\<close>, any other exception raised by \<open>post\<close>,
  \<open>raise_for_status\<close> or \<open>response.json()\<close> (with its \<open>str(e)\<close>), or the decoded body.
\<close>

datatype http_outcome = Timeout | ConnectionError | OtherException str | Response json

type_synonym endpoint = "chat_request \<Rightarrow> http_outcome"

record ollama_client =
  base_url :: str
  current_model :: str
  timeout :: nat
  conversation_history :: "str \<rightharpoonup> message list"

definition new_client :: ollama_client where
  "new_client =
     \<lparr>base_url = lit ''http://localhost:11434'',
      current_model = lit ''danielsheep/Qwen3-Coder-30B-A3B-Instruct-1M-Unsloth'',
      timeout = 60,
      conversation_history = Map.empty\<rparr>"

definition set_model :: "str \<Rightarrow> ollama_client \<Rightarrow> ollama_client" where
  "set_model model_name c = c\<lparr>current_model := model_name\<rparr>"

text \<open>
  \<open>get_or_create_conversation\<close> returns the list object stored under the session id, so
  every later \<open>insert\<close> and \<open>append\<close> on it changes the stored history at once. The model
  returns the messages and writes each change back with \<open>store_conversation\<close>.
\<close>

definition get_or_create_conversation :: "str \<Rightarrow> ollama_client \<Rightarrow> message list \<times> ollama_client" where
  "get_or_create_conversation session_id c =
     (case conversation_history c session_id of
        None \<Rightarrow> ([], c\<lparr>conversation_history := (conversation_history c)(session_id \<mapsto> [])\<rparr>)
      | Some messages \<Rightarrow> (messages, c))"

definition store_conversation :: "str \<Rightarrow> message list \<Rightarrow> ollama_client \<Rightarrow> ollama_client" where
  "store_conversation session_id messages c =
     c\<lparr>conversation_history := (conversation_history c)(session_id \<mapsto> messages)\<rparr>"

definition clear_conversation :: "str \<Rightarrow> ollama_client \<Rightarrow> ollama_client" where
  "clear_conversation session_id c =
     c\<lparr>conversation_history := (conversation_history c)(session_id := None)\<rparr>"

text \<open>\<open>str.strip()\<close>: the code points for which \<open>str.isspace\<close> holds are removed at both ends.\<close>

definition is_space :: "nat \<Rightarrow> bool" where
  "is_space c =
     ((9 \<le> c \<and> c \<le> 13) \<or> (28 \<le> c \<and> c \<le> 32) \<or> c = 0x85 \<or> c = 0xA0 \<or> c = 0x1680
      \<or> (0x2000 \<le> c \<and> c \<le> 0x200A) \<or> c = 0x2028 \<or> c = 0x2029 \<or> c = 0x202F
      \<or> c = 0x205F \<or> c = 0x3000)"

definition strip :: "str \<Rightarrow> str" where
  "strip s = rev (dropWhile is_space (rev (dropWhile is_space s)))"

text \<open>
  \<open>result.get("message", {}).get("content", "").strip()\<close>: a body that is not a dict, a
  \<open>message\<close> that is not a dict and a \<open>content\<close> that is not a string raise
  \<open>AttributeError\<close>.
\<close>

definition assistant_text :: "json \<Rightarrow> py_error + str" where
  "assistant_text result =
     (case result of
        JObj d \<Rightarrow>
          (case dict_get d (lit ''message'') (JObj []) of
             JObj m \<Rightarrow>
               (case dict_get m (lit ''content'') (JStr []) of
                  JStr s \<Rightarrow> Inr (strip s)
                | v \<Rightarrow> Inl (no_attribute v ''strip''))
           | v \<Rightarrow> Inl (no_attribute v ''get''))
      | v \<Rightarrow> Inl (no_attribute v ''get''))"

definition timeout_sentinel :: str where
  "timeout_sentinel = lit ''Error: Request timed out. Try using a smaller model.''"

definition connection_sentinel :: str where
  "connection_sentinel = lit ''Error: Cannot connect to Ollama. Make sure it's running.''"

text \<open>
  The first two steps of \<open>generate_response\<close> on the session's message list: the system
  message is inserted at position 0 when a system prompt is given (neither \<open>None\<close> nor
  empty) and the list does not already start with a system message; then the user
  message is appended.
\<close>

definition with_prompts :: "str option \<Rightarrow> str \<Rightarrow> message list \<Rightarrow> message list" where
  "with_prompts system_prompt prompt messages =
     (case system_prompt of
        None \<Rightarrow> messages
      | Some sp \<Rightarrow>
          if sp \<noteq> [] \<and>
             (case messages of [] \<Rightarrow> True | m # ms \<Rightarrow> msg_role m \<noteq> lit ''system'')
          then \<lparr>msg_role = lit ''system'', msg_content = sp\<rparr> # messages
          else messages)
     @ [\<lparr>msg_role = lit ''user'', msg_content = prompt\<rparr>]"

text \<open>The request sent to \<open>/api/chat\<close>; \<open>model or self.current_model\<close> picks the model.\<close>

definition chat_payload ::
  "ollama_client \<Rightarrow> str option \<Rightarrow> real \<Rightarrow> int \<Rightarrow> message list \<Rightarrow> chat_request" where
  "chat_payload c model temperature max_tokens messages =
     \<lparr>req_url = base_url c @ lit ''/api/chat'',
      req_model =
        (case model of None \<Rightarrow> current_model c
         | Some m \<Rightarrow> if m = [] then current_model c else m),
      req_messages = messages,
      req_stream = False,
      req_temperature = temperature,
      req_num_predict = max_tokens,
      req_timeout = 60\<rparr>"

text \<open>
  \<open>generate_response\<close>. The keyword defaults of the source (\<open>temperature=0.7\<close>,
  \<open>max_tokens=2000\<close>, \<open>session_id="default"\<close>) are written out by the callers. Every
  exception is caught inside, so the result is always a string: the reply, stripped, or
  a sentinel. The user message is in the stored history before the request is sent; the
  assistant message is appended only after a reply has been read.
\<close>

definition generate_response ::
  "endpoint \<Rightarrow> str \<Rightarrow> str option \<Rightarrow> str option \<Rightarrow> real \<Rightarrow> int \<Rightarrow> str \<Rightarrow> ollama_client
     \<Rightarrow> str \<times> ollama_client" where
  "generate_response post prompt model system_prompt temperature max_tokens session_id c =
     (let (messages0, c0) = get_or_create_conversation session_id c;
          messages = with_prompts system_prompt prompt messages0;
          c1 = store_conversation session_id messages c0
      in case post (chat_payload c model temperature max_tokens messages) of
           Timeout \<Rightarrow> (timeout_sentinel, c1)
         | ConnectionError \<Rightarrow> (connection_sentinel, c1)
         | OtherException e \<Rightarrow> (lit ''Error: '' @ e, c1)
         | Response result \<Rightarrow>
             (case assistant_text result of
                Inl e \<Rightarrow> (lit ''Error: '' @ error_str e, c1)
              | Inr assistant_response \<Rightarrow>
                  (assistant_response,
                   store_conversation session_id
                     (messages @ [\<lparr>msg_role = lit ''assistant'', msg_content = assistant_response\<rparr>])
                     c1)))"

definition json_system :: "str option \<Rightarrow> str" where
  "json_system system_prompt =
     lit ''You are an AI assistant that responds only in valid JSON format. Do not include any text outside the JSON structure.''
     @ (case system_prompt of None \<Rightarrow> []
        | Some sp \<Rightarrow> if sp = [] then [] else lit '' '' @ sp)"

definition generate_json_response ::
  "endpoint \<Rightarrow> str \<Rightarrow> str option \<Rightarrow> str option \<Rightarrow> str \<Rightarrow> ollama_client
     \<Rightarrow> json \<times> ollama_client" where
  "generate_json_response post prompt model system_prompt session_id c =
     (let (response_text, c') =
            generate_response post prompt model (Some (json_system system_prompt)) (3 / 10) 2000
              session_id c
      in (extract_json response_text, c'))"


section \<open>Workflow Orchestrator: \<open>MenuGenerator\<close>\<close>

text \<open>\<open>sep.join(xs)\<close>.\<close>

fun str_join :: "str \<Rightarrow> str list \<Rightarrow> str" where
  "str_join sep [] = []"
| "str_join sep [x] = x"
| "str_join sep (x # y # xs) = x @ sep @ str_join sep (y # xs)"

definition menu_system_prompt :: "str \<Rightarrow> str" where
  "menu_system_prompt role =
     lit ''You are MenuBot, a workflow assistant specializing in ''
     @ role
     @ lit '' tasks.\<newline>''
     @ lit ''\<newline>''
     @ lit ''LOCATION CONTEXT: You are operating in the UK/British market. Use British English, GBP currency, UK demographics, British cultural references, and UK business practices. Avoid US-centric assumptions.\<newline>''
     @ lit ''\<newline>''
     @ lit ''Your job is to generate 3-5 practical next actions based on the SPECIFIC CONTENT of the current node, not generic actions.\<newline>''
     @ lit ''\<newline>''
     @ lit ''CRITICAL RULES:\<newline>''
     @ lit ''1. Read the current node's content carefully and build on what it contains\<newline>''
     @ lit ''2. NEVER suggest actions that have already been completed (listed in completed_actions)\<newline>''
     @ lit ''3. Generate actions that logically follow from the current node's specific results\<newline>''
     @ lit ''4. Focus on advancing the workflow, not repeating previous work\<newline>''
     @ lit ''\<newline>''
     @ lit ''Return ONLY a JSON array in this exact format:\<newline>''
     @ lit ''[\<newline>''
     @ lit ''  {\<newline>''
     @ lit ''    \"title\": \"Action Title\",\<newline>''
     @ lit ''    \"prompt\": \"Detailed prompt for executing this action based on current node content\",\<newline>''
     @ lit ''    \"tools\": [\"tool1\", \"tool2\"],\<newline>''
     @ lit ''    \"alt\": \"Alternative description\",\<newline>''
     @ lit ''    \"icon\": \"''
     @ icon_clipboard
     @ lit ''\"\<newline>''
     @ lit ''  }\<newline>''
     @ lit '']\<newline>''
     @ lit ''\<newline>''
     @ lit ''Generate actions that:\<newline>''
     @ lit ''- Build directly on the current node's specific content\<newline>''
     @ lit ''- Advance the workflow to the next logical phase\<newline>''
     @ lit ''- Are contextually relevant to what was just discovered/created\<newline>''
     @ lit ''- Avoid repeating any completed actions''"

text \<open>The user prompt of a node that has content (more than 50 characters of it).\<close>

definition menu_user_prompt_node :: "str \<Rightarrow> str \<Rightarrow> str \<Rightarrow> str \<Rightarrow> str list \<Rightarrow> str" where
  "menu_user_prompt_node role context current_node_content node_title completed_actions =
     lit ''Current Node: \"''
     @ node_title
     @ lit ''\"\<newline>''
     @ lit ''Current Node Content: ''
     @ take 1000 current_node_content
     @ lit ''...\<newline>''
     @ lit ''\<newline>''
     @ lit ''Role: ''
     @ role
     @ lit ''\<newline>''
     @ lit ''Overall Context: ''
     @ context
     @ lit ''\<newline>''
     @ lit ''\<newline>''
     @ lit ''Already Completed Actions (DO NOT repeat these): ''
     @ str_join (lit '', '') completed_actions
     @ lit ''\<newline>''
     @ lit ''\<newline>''
     @ lit ''Based on the SPECIFIC CONTENT of the current node above, generate 3-5 logical next actions that build on what this node contains. Focus on what the current node discovered or created, and suggest actions that advance from these specific findings.''"

text \<open>The user prompt of a start node or of a node without content.\<close>

definition menu_user_prompt_start :: "str \<Rightarrow> str \<Rightarrow> str \<Rightarrow> str list \<Rightarrow> str" where
  "menu_user_prompt_start role context node_title completed_actions =
     lit ''Role: ''
     @ role
     @ lit ''\<newline>''
     @ lit ''Context: ''
     @ context
     @ lit ''\<newline>''
     @ lit ''Current Situation: ''
     @ node_title
     @ lit ''\<newline>''
     @ lit ''\<newline>''
     @ lit ''Already Completed Actions (DO NOT repeat these): ''
     @ str_join (lit '', '') completed_actions
     @ lit ''\<newline>''
     @ lit ''\<newline>''
     @ lit ''Generate 3-5 logical next actions to begin or advance this workflow. Avoid repeating any completed actions.''"

text \<open>
  \<open>"error" in response\<close>: a key test on a dict, a membership test on a list, a substring
  test on a string, and \<open>TypeError\<close> on every other value.
\<close>

definition contains_error :: "json \<Rightarrow> py_error + bool" where
  "contains_error response =
     (case response of
        JObj d \<Rightarrow> Inr (dict_has d (lit ''error''))
      | JArr xs \<Rightarrow> Inr (JStr (lit ''error'') \<in> set xs)
      | JStr s \<Rightarrow> Inr (str_in (lit ''error'') s)
      | v \<Rightarrow> Inl (TypeError (lit ''argument of type '' @ [39] @ type_name v @ [39]
                               @ lit '' is not iterable'')))"

text \<open>
  \<open>generate_menu\<close>. Inside the \<open>try\<close> block the membership test and the filter can raise;
  the handler returns the fallback menu, as the two explicit fallback branches do. The
  parameters \<open>parent_content\<close>, \<open>node_type\<close> and \<open>previous_actions\<close> are accepted and not
  used.
\<close>

definition generate_menu ::
  "endpoint \<Rightarrow> str \<Rightarrow> str \<Rightarrow> str \<Rightarrow> str \<Rightarrow> str \<Rightarrow> str \<Rightarrow> str list option \<Rightarrow> str list option
     \<Rightarrow> ollama_client \<Rightarrow> (py_error + pydict list) \<times> ollama_client" where
  "generate_menu post role context current_node_content node_title parent_content node_type
       completed_actions_arg previous_actions_arg c =
     (let completed_actions = (case completed_actions_arg of None \<Rightarrow> [] | Some xs \<Rightarrow> xs);
          system_prompt = menu_system_prompt role;
          user_prompt =
            (if current_node_content \<noteq> [] \<and> length current_node_content > 50
             then menu_user_prompt_node role context current_node_content node_title completed_actions
             else menu_user_prompt_start role context node_title completed_actions);
          (response, c') =
            generate_json_response post user_prompt (Some (current_model c)) (Some system_prompt)
              (lit ''default'') c;
          fallback = generate_fallback_menu role context completed_actions
      in (case contains_error response of
            Inl e \<Rightarrow> fallback
          | Inr True \<Rightarrow> fallback
          | Inr False \<Rightarrow>
              (case response of
                 JArr items \<Rightarrow>
                   (case filter_completed_actions (validate_menu_items items) completed_actions of
                      Inl e \<Rightarrow> fallback
                    | Inr filtered_menu \<Rightarrow> Inr filtered_menu)
               | other \<Rightarrow> fallback),
          c'))"

text \<open>A string-valued dict: the \<open>context\<close> of an execute-action request.\<close>

definition context_get :: "(str \<times> str) list \<Rightarrow> str \<Rightarrow> str \<Rightarrow> str" where
  "context_get d k dflt = (case map_of d k of Some v \<Rightarrow> v | None \<Rightarrow> dflt)"

definition action_system_prompt :: "str \<Rightarrow> str \<Rightarrow> str" where
  "action_system_prompt role parent_content =
     lit ''You are an AI assistant specializing in ''
     @ role
     @ lit '' tasks in the UK market.\<newline>''
     @ lit ''\<newline>''
     @ lit ''Use British English, GBP currency, UK demographics and business practices. Avoid US-centric references.\<newline>''
     @ lit ''\<newline>''
     @ lit ''Execute the requested action thoroughly and professionally, building on previous work.\<newline>''
     @ lit ''\<newline>''
     @ lit ''Previous Context: ''
     @ (if parent_content \<noteq> [] then take 500 parent_content else lit ''No previous context'')
     @ lit ''\<newline>''
     @ lit ''\<newline>''
     @ lit ''Provide:\<newline>''
     @ lit ''1. Detailed results of the action\<newline>''
     @ lit ''2. Key insights or findings\<newline>''
     @ lit ''3. Specific next steps\<newline>''
     @ lit ''4. Any relevant data or recommendations\<newline>''
     @ lit ''\<newline>''
     @ lit ''Be practical, actionable, and build logically on any previous work mentioned.''"

definition action_user_prompt :: "str \<Rightarrow> str \<Rightarrow> str \<Rightarrow> str" where
  "action_user_prompt action_prompt previous_context user_input =
     lit ''Action to execute: ''
     @ action_prompt
     @ lit ''\<newline>''
     @ lit ''\<newline>''
     @ lit ''Overall Context: ''
     @ previous_context
     @ lit ''\<newline>''
     @ lit ''\<newline>''
     @ lit ''User input: ''
     @ user_input
     @ lit ''\<newline>''
     @ lit ''\<newline>''
     @ lit ''Please execute this action and provide comprehensive results that build on any previous work.''"

definition next_actions_system_prompt :: str where
  "next_actions_system_prompt =
     lit ''Generate 3 logical next action titles based on the previous result. \<newline>''
     @ lit ''        Return only a JSON array of strings. Each string should be 2-4 words describing an action.\<newline>''
     @ lit ''        \<newline>''
     @ lit ''        Example: [\"Review Results\", \"Share Findings\", \"Plan Implementation\"]''"

definition next_actions_user_prompt :: "str \<Rightarrow> str \<Rightarrow> str" where
  "next_actions_user_prompt role previous_result =
     lit ''Role: ''
     @ role
     @ lit ''\<newline>''
     @ lit ''Previous result: ''
     @ take 500 previous_result
     @ lit ''...\<newline>''
     @ lit ''\<newline>''
     @ lit ''What are 3 logical next actions that build on these results?''"

definition default_next_actions :: "json list" where
  "default_next_actions =
     [JStr (lit ''Review Results''), JStr (lit ''Continue Planning''), JStr (lit ''Next Phase'')]"

text \<open>
  \<open>_generate_next_actions\<close>. The structured call cannot raise in this model, so the bare
  \<open>except\<close>, which returns the same three titles as the non-list branch, adds no case.
\<close>

definition generate_next_actions ::
  "endpoint \<Rightarrow> str \<Rightarrow> str \<Rightarrow> ollama_client \<Rightarrow> json list \<times> ollama_client" where
  "generate_next_actions post role previous_result c =
     (let (response, c') =
            generate_json_response post (next_actions_user_prompt role previous_result)
              (Some (current_model c)) (Some next_actions_system_prompt) (lit ''default'') c
      in (case response of
            JArr xs \<Rightarrow> take 3 xs
          | other \<Rightarrow> default_next_actions,
          c'))"

text \<open>The dict that \<open>execute_action\<close> returns.\<close>

record execution_result =
  res_content :: str
  res_next_actions :: "json list"
  res_executed_at :: str
  res_model_used :: str

text \<open>The value built by the \<open>except\<close> handler of \<open>execute_action\<close>.\<close>

definition error_result :: "py_error \<Rightarrow> execution_result" where
  "error_result e =
     \<lparr>res_content = lit ''Error executing action: '' @ error_str e,
      res_next_actions = [],
      res_executed_at = lit ''now'',
      res_model_used = lit ''error''\<rparr>"

text \<open>
  The \<open>try\<close> block of \<open>execute_action\<close>: the primary generation, then the suggested next
  actions. \<open>generate_response\<close> turns every failure into a returned sentinel string and
  \<open>_generate_next_actions\<close> catches everything, so the block always ends in its \<open>return\<close>.
\<close>

definition execute_action_try ::
  "endpoint \<Rightarrow> str \<Rightarrow> str \<Rightarrow> str \<Rightarrow> str \<Rightarrow> ollama_client
     \<Rightarrow> (py_error \<times> ollama_client) + (execution_result \<times> ollama_client)" where
  "execute_action_try post role system_prompt user_prompt action_id c =
     (let (result, c1) =
            generate_response post user_prompt (Some (current_model c)) (Some system_prompt)
              (7 / 10) 2000 (lit ''default'') c;
          (next_actions, c2) = generate_next_actions post role result c1
      in Inr (\<lparr>res_content = result,
               res_next_actions = next_actions,
               res_executed_at = lit ''now'',
               res_model_used = current_model c2\<rparr>, c2))"

definition execute_action ::
  "endpoint \<Rightarrow> str \<Rightarrow> (str \<times> str) list \<Rightarrow> str \<Rightarrow> ollama_client
     \<Rightarrow> execution_result \<times> ollama_client" where
  "execute_action post action_id context user_input c =
     (let action_prompt = context_get context (lit ''action_prompt'') [];
          role = context_get context (lit ''role'') (lit ''General User'');
          previous_context = context_get context (lit ''context'') [];
          parent_content = context_get context (lit ''parent_content'') [];
          system_prompt = action_system_prompt role parent_content;
          user_prompt = action_user_prompt action_prompt previous_context user_input
      in case execute_action_try post role system_prompt user_prompt action_id c of
           Inr r \<Rightarrow> r
         | Inl (e, c') \<Rightarrow> (error_result e, c'))"


section \<open>Observations used in the statements\<close>

text \<open>The stored history of a session; a session that was never used has none.\<close>

definition session_messages :: "ollama_client \<Rightarrow> str \<Rightarrow> message list" where
  "session_messages c session_id =
     (case conversation_history c session_id of None \<Rightarrow> [] | Some messages \<Rightarrow> messages)"

definition is_system :: "message \<Rightarrow> bool" where
  "is_system m = (msg_role m = lit ''system'')"

text \<open>
  A history is well formed when no message after the first one is a system message and
  every role is one of the three roles of the chat protocol.
\<close>

definition well_formed :: "message list \<Rightarrow> bool" where
  "well_formed messages =
     ((\<forall>m \<in> set (tl messages). \<not> is_system m) \<and>
      (\<forall>m \<in> set messages.
         msg_role m = lit ''system'' \<or> msg_role m = lit ''user'' \<or> msg_role m = lit ''assistant''))"

text \<open>The turns of a history: its user and assistant messages, in their order.\<close>

definition turns :: "message list \<Rightarrow> message list" where
  "turns messages = filter (\<lambda>m. \<not> is_system m) messages"

text \<open>
  A call of \<open>generate_response\<close> fails when the exchange raises or the body has no text to
  strip, that is, when one of the three \<open>except\<close> clauses returns.
\<close>

definition failed :: "http_outcome \<Rightarrow> bool" where
  "failed outcome = (case outcome of Response result \<Rightarrow> isl (assistant_text result) | _ \<Rightarrow> True)"

text \<open>A sequence of generation calls on a client, each with the endpoint's behaviour at that time.\<close>

datatype gateway_call =
    TextCall endpoint str "str option" "str option" real int str
  | JsonCall endpoint str "str option" "str option" str

fun run_call :: "gateway_call \<Rightarrow> ollama_client \<Rightarrow> ollama_client" where
  "run_call (TextCall post prompt model system_prompt temperature max_tokens session_id) c =
     snd (generate_response post prompt model system_prompt temperature max_tokens session_id c)"
| "run_call (JsonCall post prompt model system_prompt session_id) c =
     snd (generate_json_response post prompt model system_prompt session_id c)"

fun run_calls :: "gateway_call list \<Rightarrow> ollama_client \<Rightarrow> ollama_client" where
  "run_calls [] c = c"
| "run_calls (call # calls) c = run_calls calls (run_call call c)"

text \<open>An endpoint that cannot be reached, and one that never answers in time.\<close>

definition unreachable :: endpoint where
  "unreachable request = ConnectionError"

definition too_slow :: endpoint where
  "too_slow request = Timeout"

text \<open>An endpoint that answers every request with the same text.\<close>

definition replying :: "str \<Rightarrow> endpoint" where
  "replying text request =
     Response (JObj [(lit ''message'', JObj [(lit ''content'', JStr text)])])"



section \<open>Evaluation rules\<close>

text \<open>The defining equations that the simplifier needs to run the model on a concrete input.\<close>

lemmas string_eval = lit_def lower_def lower_cp_def
lemmas dedup_eval = similar_title_def keyword_duplicate_def duplicate_keywords_def Let_def
   dict_get_def dict_has_def title_of_def
lemmas json_eval = json_loads_def skip_ws_def is_ws_def scan_once.simps parse_object_pairs.simps
     parse_array_items.simps match_number_def match_frac_def match_exp_def is_digit_def dec_value_def
     dict_of_pairs_def unescape_def json_match_def extract_json_def parse_failure_def

section \<open>Properties of the Dedup Filter\<close>

lemma filter_items_kept:
  "filter_items items completed = Inr filtered \<Longrightarrow> item \<in> set filtered \<Longrightarrow>
     item \<in> set items \<and>
     (\<exists>t. dict_get item (lit ''title'') (JStr []) = JStr t \<and> \<not> is_duplicate (lower t) completed)"
proof (induction items arbitrary: filtered)
  case Nil
  then show ?case by simp
next
  case (Cons a items)
  from Cons.prems(1) obtain t rest where
    t: "dict_get a (lit ''title'') (JStr []) = JStr t" and
    rest: "filter_items items completed = Inr rest" and
    filtered: "filtered = (if is_duplicate (lower t) completed then rest else a # rest)"
    by (auto simp: Let_def split: json.splits sum.splits)
  show ?case
  proof (cases "item \<in> set rest")
    case True
    with Cons.IH [OF rest] show ?thesis by simp
  next
    case False
    with Cons.prems(2) filtered have "item = a" "\<not> is_duplicate (lower t) completed"
      by (auto split: if_splits)
    with t show ?thesis by simp
  qed
qed

lemma filter_items_subseq:
  "filter_items items completed = Inr filtered \<Longrightarrow> subseq filtered items"
proof (induction items arbitrary: filtered)
  case Nil
  then show ?case by simp
next
  case (Cons a items)
  from Cons.prems obtain t rest where
    rest: "filter_items items completed = Inr rest" and
    filtered: "filtered = (if is_duplicate (lower t) completed then rest else a # rest)"
    by (auto simp: Let_def split: json.splits sum.splits)
  from Cons.IH [OF rest] filtered show ?case by (auto intro: subseq_Cons')
qed

lemma progression_subseq: "subseq (get_progression_actions completed) progression_actions"
  by (simp add: get_progression_actions_def)

lemma analyze_dup:
  "is_duplicate (lower (lit ''Analyze Competitors'')) [lit ''Analyzed market trends'']"
  by (simp add: string_eval dedup_eval)

lemma progression_titles:
  "map (\<lambda>item. dict_get item (lit ''title'') (JStr [])) progression_actions =
     [JStr (lit ''Next Phase''), JStr (lit ''Deep Dive''), JStr (lit ''Create Deliverable'')]"
  by (simp add: progression_actions_def dict_get_def lit_def)

text \<open>
  Claim C6. With the completed-actions list \<open>["Analyzed market trends"]\<close> the Dedup Filter
  removes a candidate titled \<open>"Analyze Competitors"\<close>: no item of the filter's output has
  that title, whatever the other candidates are. The titles are neither equal nor
  contained in one another, so it is the stem pair that decides: \<open>"analyze"\<close> occurs in
  the lower-cased title and \<open>"analyz"\<close> in the lower-cased completed entry.
\<close>

theorem stem_pair_dedup:
  "\<not> similar_title (lower (lit ''Analyze Competitors'')) (lower (lit ''Analyzed market trends''))
   \<and> str_in (lit ''analyze'') (lower (lit ''Analyze Competitors''))
   \<and> str_in (lit ''analyz'') (lower (lit ''Analyzed market trends''))
   \<and> (\<forall>menu_items out item.
         filter_completed_actions menu_items [lit ''Analyzed market trends''] = Inr out
         \<and> item \<in> set out
         \<longrightarrow> dict_get item (lit ''title'') (JStr []) \<noteq> JStr (lit ''Analyze Competitors''))"
proof -
  have a: "\<not> similar_title (lower (lit ''Analyze Competitors'')) (lower (lit ''Analyzed market trends''))"
    by (simp add: string_eval dedup_eval)
  have b: "str_in (lit ''analyze'') (lower (lit ''Analyze Competitors''))"
    by (simp add: string_eval)
  have c: "str_in (lit ''analyz'') (lower (lit ''Analyzed market trends''))"
    by (simp add: string_eval)
  have d: "dict_get item (lit ''title'') (JStr []) \<noteq> JStr (lit ''Analyze Competitors'')"
    if run: "filter_completed_actions menu_items [lit ''Analyzed market trends''] = Inr out"
      and item: "item \<in> set out" for menu_items out item
  proof -
    from run obtain filtered where
      f: "filter_items menu_items [lit ''Analyzed market trends''] = Inr filtered" and
      out: "out = take 5 (if length filtered < 2
                          then filtered @ get_progression_actions [lit ''Analyzed market trends'']
                          else filtered)"
      by (auto simp: filter_completed_actions_def split: sum.splits)
    from item out have "item \<in> set filtered \<or> item \<in> set (get_progression_actions [lit ''Analyzed market trends''])"
      by (auto dest: in_set_takeD split: if_splits)
    then show ?thesis
    proof
      assume "item \<in> set filtered"
      from filter_items_kept [OF f this] analyze_dup show ?thesis by auto
    next
      assume "item \<in> set (get_progression_actions [lit ''Analyzed market trends''])"
      then have "item \<in> set progression_actions"
        by (simp add: get_progression_actions_def)
      then have "dict_get item (lit ''title'') (JStr []) \<in> set (map (\<lambda>item. dict_get item (lit ''title'') (JStr [])) progression_actions)"
        by simp
      then show ?thesis
        unfolding progression_titles by (auto simp: lit_def)
    qed
  qed
  from a b c d show ?thesis by blast
qed

text \<open>
  On the single candidate titled \<open>"Analyze Competitors"\<close> the filter returns the three
  progression actions and nothing else.
\<close>

theorem stem_pair_dedup_witness:
  "filter_completed_actions
     (validate_menu_items [JObj [(lit ''title'', JStr (lit ''Analyze Competitors''))]])
     [lit ''Analyzed market trends''] = Inr progression_actions
   \<and> hd progression_actions \<in> set progression_actions
   \<and> dict_get (hd progression_actions) (lit ''title'') (JStr []) \<noteq> JStr (lit ''Analyze Competitors'')"
proof -
  have run: "filter_completed_actions
     (validate_menu_items [JObj [(lit ''title'', JStr (lit ''Analyze Competitors''))]])
     [lit ''Analyzed market trends''] = Inr progression_actions"
    by (simp add: string_eval dedup_eval filter_completed_actions_def validated_item_def
        get_progression_actions_def progression_actions_def)
  have mem: "hd progression_actions \<in> set progression_actions"
    by (simp add: progression_actions_def)
  from stem_pair_dedup run mem show ?thesis by blast
qed

section \<open>Properties of the JSON extraction\<close>

text \<open>
  Claim C5. On \<open>Here you go: {"a":1} thanks\<close> the direct parse fails, the greedy brace
  match is \<open>{"a":1}\<close> and the extraction yields the object \<open>{"a": 1}\<close>; on
  \<open>not json at all\<close> it yields the parse-failure value, which carries the raw text.
\<close>

theorem json_extraction_examples:
  "json_loads (lit ''Here you go: {\"a\":1} thanks'') = None
   \<and> json_match (lit ''Here you go: {\"a\":1} thanks'') = Some (lit ''{\"a\":1}'')
   \<and> extract_json (lit ''Here you go: {\"a\":1} thanks'') = JObj [(lit ''a'', JInt 1)]
   \<and> extract_json (lit ''not json at all'') =
       JObj [(lit ''error'', JStr (lit ''Failed to parse JSON response'')),
             (lit ''raw_response'', JStr (lit ''not json at all''))]"
  by (simp add: string_eval json_eval)


section \<open>Properties of the Menu Validator\<close>

lemma validated_item_title:
  "dict_get (validated_item d) (lit ''title'') dflt = dict_get d (lit ''title'') (JStr (lit ''Unknown Action''))"
  by (simp add: validated_item_def dict_get_def)

lemma dict_get_Some: "map_of d k = Some v \<Longrightarrow> dict_get d k dflt = v"
  by (simp add: dict_get_def)

lemma validate_titles:
  "map (\<lambda>item. dict_get item (lit ''title'') JNull) (validate_menu_items items) =
     List.map_filter (\<lambda>x. case x of JObj d \<Rightarrow> map_of d (lit ''title'') | _ \<Rightarrow> None) items"
proof (induction items rule: validate_menu_items.induct)
  case 1
  then show ?case by simp
next
  case (2 item items)
  then show ?case
    by (auto simp: validated_item_title dict_has_def dict_get_Some)
qed simp_all

text \<open>
  Claim C3, as amended. The validator emits one ActionItem for each map-shaped candidate
  that has a \<open>title\<close> key, in the order of the input, and skips every other candidate; the
  title of an emitted item is the candidate's own value under \<open>title\<close>, whatever it is.
  So the emitted titles are non-empty strings when the titles of these candidates are.
\<close>

theorem validator_keeps_titles:
  "map (\<lambda>item. dict_get item (lit ''title'') JNull) (validate_menu_items items) =
     List.map_filter (\<lambda>x. case x of JObj d \<Rightarrow> map_of d (lit ''title'') | _ \<Rightarrow> None) items
   \<and> ((\<forall>d t. JObj d \<in> set items \<and> map_of d (lit ''title'') = Some t \<longrightarrow> (\<exists>s. t = JStr s \<and> s \<noteq> []))
        \<longrightarrow> (\<forall>item \<in> set (validate_menu_items items).
               \<exists>s. dict_get item (lit ''title'') JNull = JStr s \<and> s \<noteq> []))"
proof (intro conjI impI ballI)
  show "map (\<lambda>item. dict_get item (lit ''title'') JNull) (validate_menu_items items) =
     List.map_filter (\<lambda>x. case x of JObj d \<Rightarrow> map_of d (lit ''title'') | _ \<Rightarrow> None) items"
    by (rule validate_titles)
next
  fix item
  assume good: "\<forall>d t. JObj d \<in> set items \<and> map_of d (lit ''title'') = Some t \<longrightarrow> (\<exists>s. t = JStr s \<and> s \<noteq> [])"
    and item: "item \<in> set (validate_menu_items items)"
  from item have "dict_get item (lit ''title'') JNull
      \<in> set (map (\<lambda>item. dict_get item (lit ''title'') JNull) (validate_menu_items items))"
    by simp
  then have "dict_get item (lit ''title'') JNull
      \<in> set (List.map_filter (\<lambda>x. case x of JObj d \<Rightarrow> map_of d (lit ''title'') | _ \<Rightarrow> None) items)"
    by (simp only: validate_titles)
  then obtain x where x: "x \<in> set items"
    and t: "(case x of JObj d \<Rightarrow> map_of d (lit ''title'') | _ \<Rightarrow> None) = Some (dict_get item (lit ''title'') JNull)"
    by (auto simp: map_filter_def)
  from t obtain d where "x = JObj d" "map_of d (lit ''title'') = Some (dict_get item (lit ''title'') JNull)"
    by (cases x) auto
  with x good show "\<exists>s. dict_get item (lit ''title'') JNull = JStr s \<and> s \<noteq> []"
    by blast
qed

theorem validator_keeps_titles_witness:
  "map (\<lambda>item. dict_get item (lit ''title'') JNull)
     (validate_menu_items
        [JObj [(lit ''title'', JStr (lit ''Create Report''))], JStr (lit ''Create Report''),
         JObj [(lit ''prompt'', JStr (lit ''no title''))]])
   = [JStr (lit ''Create Report'')]
   \<and> (\<exists>s. dict_get
             (hd (validate_menu_items
                [JObj [(lit ''title'', JStr (lit ''Create Report''))], JStr (lit ''Create Report''),
                 JObj [(lit ''prompt'', JStr (lit ''no title''))]]))
             (lit ''title'') JNull = JStr s \<and> s \<noteq> [])"
proof -
  let ?items = "[JObj [(lit ''title'', JStr (lit ''Create Report''))], JStr (lit ''Create Report''),
         JObj [(lit ''prompt'', JStr (lit ''no title''))]]"
  have good: "\<forall>d t. JObj d \<in> set ?items \<and> map_of d (lit ''title'') = Some t \<longrightarrow> (\<exists>s. t = JStr s \<and> s \<noteq> [])"
    by (auto simp: lit_def split: if_splits)
  have titles: "List.map_filter (\<lambda>x. case x of JObj d \<Rightarrow> map_of d (lit ''title'') | _ \<Rightarrow> None) ?items
      = [JStr (lit ''Create Report'')]"
    by (simp add: lit_def)
  have first: "hd (validate_menu_items ?items) \<in> set (validate_menu_items ?items)"
    by (simp add: dict_has_def lit_def)
  from validator_keeps_titles [of ?items] good titles first show ?thesis
    by simp
qed

text \<open>
  The claim as it stands fails: a candidate whose title is the empty string is emitted,
  with the empty title (and the empty string as its \<open>alt\<close>).
\<close>

theorem validator_emits_empty_title:
  "validate_menu_items [JObj [(lit ''title'', JStr [])]] =
     [[(lit ''title'', JStr []),
       (lit ''prompt'', JStr (lit ''Execute this action'')),
       (lit ''tools'', JArr []),
       (lit ''alt'', JStr []),
       (lit ''icon'', JStr icon_clipboard)]]"
  by (simp add: validated_item_def dict_get_def dict_has_def lit_def)


section \<open>Shape of the filter's output\<close>

text \<open>
  What holds of the filter on every input: the output is drawn from the candidates and
  the progression catalogue, survivors come first and in their order, and with a
  non-empty completed-actions list there are at most five items.
\<close>

lemma subseq_member: "subseq xs ys \<Longrightarrow> x \<in> set xs \<Longrightarrow> x \<in> set ys"
  by (erule list_emb_set) auto

lemma filter_output_shape:
  assumes "filter_completed_actions menu_items completed_actions = Inr out"
  shows "set out \<subseteq> set menu_items \<union> set progression_actions"
    and "completed_actions \<noteq> [] \<Longrightarrow> length out \<le> 5"
    and "\<exists>survivors appended.
           subseq survivors menu_items \<and> subseq appended progression_actions \<and>
           out = (if completed_actions = [] then menu_items else take 5 (survivors @ appended))"
proof -
  show "\<exists>survivors appended.
           subseq survivors menu_items \<and> subseq appended progression_actions \<and>
           out = (if completed_actions = [] then menu_items else take 5 (survivors @ appended))"
  proof (cases "completed_actions = []")
    case True
    with assms have "out = menu_items" by (simp add: filter_completed_actions_def)
    with True show ?thesis by (intro exI [of _ "[]"]) simp
  next
    case False
    with assms obtain filtered where
      f: "filter_items menu_items completed_actions = Inr filtered" and
      out: "out = take 5 (if length filtered < 2
                          then filtered @ get_progression_actions completed_actions
                          else filtered)"
      by (auto simp: filter_completed_actions_def split: sum.splits)
    let ?appended = "if length filtered < 2 then get_progression_actions completed_actions else []"
    have "subseq filtered menu_items" by (rule filter_items_subseq [OF f])
    moreover have "subseq ?appended progression_actions"
      by (simp add: progression_subseq)
    moreover have "out = take 5 (filtered @ ?appended)" using out by simp
    ultimately have "subseq filtered menu_items \<and> subseq ?appended progression_actions \<and>
           out = (if completed_actions = [] then menu_items else take 5 (filtered @ ?appended))"
      using False by (simp only: if_False simp_thms)
    then show ?thesis by blast
  qed
  then obtain survivors appended where
    s: "subseq survivors menu_items" and a: "subseq appended progression_actions" and
    o: "out = (if completed_actions = [] then menu_items else take 5 (survivors @ appended))"
    by blast
  have "set (take 5 (survivors @ appended)) \<subseteq> set survivors \<union> set appended"
    using set_take_subset [of 5 "survivors @ appended"] by simp
  with s a o show "set out \<subseteq> set menu_items \<union> set progression_actions"
    by (auto dest: subseq_member split: if_splits)
  show "length out \<le> 5" if "completed_actions \<noteq> []"
    using o that by simp
qed

lemma base_titles:
  "map (\<lambda>item. dict_get item (lit ''title'') (JStr [])) (base_actions role context) =
     [JStr (lit ''Analyze Current State''), JStr (lit ''Strategic Planning''),
      JStr (lit ''Research Options''), JStr (lit ''Create Deliverable''), JStr (lit ''Next Steps'')]"
  by (simp add: base_actions_def dict_get_def lit_def)

lemma filter_items_total:
  "\<forall>item \<in> set items. \<exists>t. dict_get item (lit ''title'') (JStr []) = JStr t \<Longrightarrow>
     \<exists>filtered. filter_items items completed = Inr filtered"
  by (induction items) (auto simp: Let_def)

text \<open>The fallback menu never raises, has at most five items, and every title is non-empty.\<close>

lemma fallback_menu_shape:
  "\<exists>menu. generate_fallback_menu role context completed = Inr menu \<and> length menu \<le> 5 \<and>
     (\<forall>item \<in> set menu. \<exists>t. dict_get item (lit ''title'') (JStr []) = JStr t \<and> t \<noteq> [])"
proof -
  have str: "\<forall>item \<in> set (base_actions role context). \<exists>t. dict_get item (lit ''title'') (JStr []) = JStr t \<and> t \<noteq> []"
    by (simp add: base_actions_def dict_get_def lit_def)
  then have "\<exists>filtered. filter_items (base_actions role context) completed = Inr filtered"
    by (intro filter_items_total) blast
  then obtain menu where menu: "generate_fallback_menu role context completed = Inr menu"
    by (cases "completed = []") (auto simp: generate_fallback_menu_def filter_completed_actions_def)
  have five: "length (base_actions role context) = 5"
    by (simp add: base_actions_def)
  have len: "length menu \<le> 5"
  proof (cases "completed = []")
    case True
    with menu five show ?thesis
      by (simp add: generate_fallback_menu_def filter_completed_actions_def)
  next
    case False
    with filter_output_shape(2) [OF menu [unfolded generate_fallback_menu_def]] show ?thesis .
  qed
  have prog: "\<forall>item \<in> set progression_actions. \<exists>t. dict_get item (lit ''title'') (JStr []) = JStr t \<and> t \<noteq> []"
    by (simp add: progression_actions_def dict_get_def lit_def)
  from filter_output_shape(1) [OF menu [unfolded generate_fallback_menu_def]] str prog
  have "\<forall>item \<in> set menu. \<exists>t. dict_get item (lit ''title'') (JStr []) = JStr t \<and> t \<noteq> []"
    by blast
  with menu len show ?thesis by blast
qed

text \<open>
  Claim C4, at the failing input. With an empty completed-actions list the filter returns
  its candidates unchanged, so six candidates give six items: the cut to five is not
  reached.
\<close>

theorem filter_returns_six_items:
  "filter_completed_actions
     (validate_menu_items
        [JObj [(lit ''title'', JStr (lit ''One''))], JObj [(lit ''title'', JStr (lit ''Two''))],
         JObj [(lit ''title'', JStr (lit ''Three''))], JObj [(lit ''title'', JStr (lit ''Four''))],
         JObj [(lit ''title'', JStr (lit ''Five''))], JObj [(lit ''title'', JStr (lit ''Six''))]])
     []
   = Inr (validate_menu_items
        [JObj [(lit ''title'', JStr (lit ''One''))], JObj [(lit ''title'', JStr (lit ''Two''))],
         JObj [(lit ''title'', JStr (lit ''Three''))], JObj [(lit ''title'', JStr (lit ''Four''))],
         JObj [(lit ''title'', JStr (lit ''Five''))], JObj [(lit ''title'', JStr (lit ''Six''))]])
   \<and> length (validate_menu_items
        [JObj [(lit ''title'', JStr (lit ''One''))], JObj [(lit ''title'', JStr (lit ''Two''))],
         JObj [(lit ''title'', JStr (lit ''Three''))], JObj [(lit ''title'', JStr (lit ''Four''))],
         JObj [(lit ''title'', JStr (lit ''Five''))], JObj [(lit ''title'', JStr (lit ''Six''))]]) = 6"
  by (simp add: filter_completed_actions_def dict_has_def lit_def)


section \<open>The gateway under transport failure\<close>

lemma generate_response_failed:
  assumes "failed (post (chat_payload c model temperature max_tokens
             (with_prompts system_prompt prompt (session_messages c session_id))))"
  shows "snd (generate_response post prompt model system_prompt temperature max_tokens session_id c)
           = store_conversation session_id
               (with_prompts system_prompt prompt (session_messages c session_id)) c"
    and "prefix (lit ''Error: '')
           (fst (generate_response post prompt model system_prompt temperature max_tokens session_id c))"
proof -
  have same: "store_conversation session_id ms
                (c\<lparr>conversation_history := (conversation_history c)(session_id \<mapsto> [])\<rparr>)
              = store_conversation session_id ms c" for ms
    by (simp add: store_conversation_def)
  have sentinels: "prefix (lit ''Error: '') timeout_sentinel" "prefix (lit ''Error: '') connection_sentinel"
    by (simp_all add: timeout_sentinel_def connection_sentinel_def lit_def)
  show "snd (generate_response post prompt model system_prompt temperature max_tokens session_id c)
           = store_conversation session_id
               (with_prompts system_prompt prompt (session_messages c session_id)) c"
    using assms
    by (auto simp: generate_response_def get_or_create_conversation_def session_messages_def
        failed_def same Let_def split: option.splits http_outcome.splits sum.splits)
  show "prefix (lit ''Error: '')
           (fst (generate_response post prompt model system_prompt temperature max_tokens session_id c))"
    using assms sentinels
    by (auto simp: generate_response_def get_or_create_conversation_def session_messages_def
        failed_def Let_def split: option.splits http_outcome.splits sum.splits)
qed

lemma generate_response_transport:
  assumes "\<forall>request. post request = Timeout \<or> post request = ConnectionError"
  shows "fst (generate_response post prompt model system_prompt temperature max_tokens session_id c)
           \<in> {timeout_sentinel, connection_sentinel}"
proof -
  let ?request = "chat_payload c model temperature max_tokens
     (with_prompts system_prompt prompt (fst (get_or_create_conversation session_id c)))"
  from assms have "post ?request = Timeout \<or> post ?request = ConnectionError" ..
  then show ?thesis
    by (auto simp: generate_response_def Let_def split: prod.splits)
qed

lemma sentinels_not_json:
  "extract_json timeout_sentinel = parse_failure timeout_sentinel"
  "extract_json connection_sentinel = parse_failure connection_sentinel"
  by (simp_all add: string_eval json_eval timeout_sentinel_def connection_sentinel_def)

lemma generate_json_transport:
  assumes "\<forall>request. post request = Timeout \<or> post request = ConnectionError"
  shows "fst (generate_json_response post prompt model system_prompt session_id c)
           \<in> {parse_failure timeout_sentinel, parse_failure connection_sentinel}"
proof -
  from generate_response_transport [OF assms]
  have "fst (generate_response post prompt model (Some (json_system system_prompt)) (3 / 10) 2000 session_id c)
           \<in> {timeout_sentinel, connection_sentinel}" .
  then show ?thesis
    by (auto simp: generate_json_response_def Let_def sentinels_not_json split: prod.splits)
qed

lemma contains_error_failure: "contains_error (parse_failure text) = Inr True"
  by (simp add: contains_error_def parse_failure_def dict_has_def lit_def)

text \<open>Under transport failure \<open>generate_menu\<close> returns the fallback menu.\<close>

lemma generate_menu_transport:
  assumes "\<forall>request. post request = Timeout \<or> post request = ConnectionError"
  shows "fst (generate_menu post role context current_node_content node_title parent_content
                node_type completed_actions previous_actions c)
         = generate_fallback_menu role context
             (case completed_actions of None \<Rightarrow> [] | Some xs \<Rightarrow> xs)"
proof -
  let ?completed = "case completed_actions of None \<Rightarrow> [] | Some xs \<Rightarrow> xs"
  let ?prompt = "if current_node_content \<noteq> [] \<and> length current_node_content > 50
       then menu_user_prompt_node role context current_node_content node_title ?completed
       else menu_user_prompt_start role context node_title ?completed"
  obtain response c' where call:
    "generate_json_response post ?prompt (Some (current_model c)) (Some (menu_system_prompt role))
       (lit ''default'') c = (response, c')"
    by (cases "generate_json_response post ?prompt (Some (current_model c))
                 (Some (menu_system_prompt role)) (lit ''default'') c")
  from generate_json_transport [OF assms, of ?prompt "Some (current_model c)"
      "Some (menu_system_prompt role)" "lit ''default''" c] call
  have "contains_error response = Inr True"
    by (auto simp: contains_error_failure)
  with call show ?thesis
    by (simp add: generate_menu_def Let_def)
qed


text \<open>
  Claim C1, at the failing input. The gateway cannot be reached, so \<open>generate_menu\<close> takes
  the fallback path; the caller has completed the five fallback actions and the
  progression actions \<open>Next Phase\<close> and \<open>Deep Dive\<close>. Every fallback action is filtered out
  and so is every progression action that would fill the menu up, and the menu is empty.
\<close>

theorem fallback_menu_can_be_empty:
  "fst (generate_menu unreachable (lit ''Product Manager'') (lit ''Launch plan'') [] [] []
          (lit ''menu'')
          (Some [lit ''Analyze Current State'', lit ''Strategic Planning'', lit ''Research Options'',
                 lit ''Create Deliverable'', lit ''Next Steps'', lit ''Next Phase'', lit ''Deep Dive''])
          None new_client)
   = Inr []"
proof -
  have "\<forall>request. unreachable request = Timeout \<or> unreachable request = ConnectionError"
    by (simp add: unreachable_def)
  from generate_menu_transport [OF this] show ?thesis
    by (simp add: string_eval dedup_eval filter_completed_actions_def generate_fallback_menu_def
        base_actions_def get_progression_actions_def progression_actions_def)
qed

section \<open>Properties of \<open>execute_action\<close>\<close>

lemma generate_response_model:
  "current_model (snd (generate_response post prompt model system_prompt temperature max_tokens
                         session_id c)) = current_model c"
  by (auto simp: generate_response_def get_or_create_conversation_def store_conversation_def
      Let_def split: option.splits http_outcome.splits sum.splits)

lemma generate_json_response_model:
  "current_model (snd (generate_json_response post prompt model system_prompt session_id c))
     = current_model c"
  using generate_response_model [of post prompt model "Some (json_system system_prompt)" "3 / 10" 2000 session_id c]
  by (auto simp: generate_json_response_def Let_def split: prod.splits)

lemma generate_next_actions_model:
  "current_model (snd (generate_next_actions post role previous_result c)) = current_model c"
  using generate_json_response_model [of post "next_actions_user_prompt role previous_result"
      "Some (current_model c)" "Some next_actions_system_prompt" "lit ''default''" c]
  by (auto simp: generate_next_actions_def Let_def split: prod.splits)

lemma generate_next_actions_transport:
  assumes "\<forall>request. post request = Timeout \<or> post request = ConnectionError"
  shows "fst (generate_next_actions post role previous_result c) = default_next_actions"
  using generate_json_transport [OF assms, of "next_actions_user_prompt role previous_result"
      "Some (current_model c)" "Some next_actions_system_prompt" "lit ''default''" c]
  by (auto simp: generate_next_actions_def Let_def parse_failure_def split: prod.splits)

text \<open>
  Under transport failure \<open>execute_action\<close> returns through the \<open>return\<close> of its \<open>try\<close>
  block: the content is the sentinel, the next actions are the three default titles and
  the model identifier is the current model.
\<close>

lemma execute_action_transport:
  assumes "\<forall>request. post request = Timeout \<or> post request = ConnectionError"
  shows "res_content (fst (execute_action post action_id context user_input c))
           \<in> {timeout_sentinel, connection_sentinel}"
    and "res_next_actions (fst (execute_action post action_id context user_input c))
           = default_next_actions"
    and "res_model_used (fst (execute_action post action_id context user_input c))
           = current_model c"
proof -
  let ?role = "context_get context (lit ''role'') (lit ''General User'')"
  let ?sys = "action_system_prompt ?role (context_get context (lit ''parent_content'') [])"
  let ?usr = "action_user_prompt (context_get context (lit ''action_prompt'') [])
                (context_get context (lit ''context'') []) user_input"
  obtain result c1 where primary:
    "generate_response post ?usr (Some (current_model c)) (Some ?sys) (7 / 10) 2000 (lit ''default'') c
       = (result, c1)"
    by (cases "generate_response post ?usr (Some (current_model c)) (Some ?sys) (7 / 10) 2000
                 (lit ''default'') c")
  obtain next_actions c2 where secondary:
    "generate_next_actions post ?role result c1 = (next_actions, c2)"
    by (cases "generate_next_actions post ?role result c1")
  have run: "fst (execute_action post action_id context user_input c)
      = \<lparr>res_content = result, res_next_actions = next_actions, res_executed_at = lit ''now'',
         res_model_used = current_model c2\<rparr>"
    using primary secondary by (simp add: execute_action_def execute_action_try_def Let_def)
  from generate_response_transport [OF assms, of ?usr "Some (current_model c)" "Some ?sys"
      "7 / 10" 2000 "lit ''default''" c] primary
  have "result \<in> {timeout_sentinel, connection_sentinel}" by simp
  with run show "res_content (fst (execute_action post action_id context user_input c))
           \<in> {timeout_sentinel, connection_sentinel}" by simp
  from generate_next_actions_transport [OF assms, of ?role result c1] secondary run
  show "res_next_actions (fst (execute_action post action_id context user_input c))
           = default_next_actions" by simp
  from generate_response_model [of post ?usr "Some (current_model c)" "Some ?sys" "7 / 10" 2000
      "lit ''default''" c] primary
  have "current_model c1 = current_model c" by simp
  moreover from generate_next_actions_model [of post ?role result c1] secondary
  have "current_model c2 = current_model c1" by simp
  ultimately show "res_model_used (fst (execute_action post action_id context user_input c))
           = current_model c" using run by simp
qed

text \<open>
  Claim C2, at the failing input. The gateway cannot be reached when an action is
  executed on a fresh client. The result is not the error-flagged one of the \<open>except\<close>
  handler: its next actions are the three default titles and its model identifier is the
  configured model, with the sentinel string as content.
\<close>

theorem execute_action_unreachable:
  "fst (execute_action unreachable (lit ''action-1'')
          [(lit ''action_prompt'', lit ''Research the market''), (lit ''role'', lit ''Analyst'')]
          [] new_client)
   = \<lparr>res_content = lit ''Error: Cannot connect to Ollama. Make sure it's running.'',
      res_next_actions =
        [JStr (lit ''Review Results''), JStr (lit ''Continue Planning''), JStr (lit ''Next Phase'')],
      res_executed_at = lit ''now'',
      res_model_used = lit ''danielsheep/Qwen3-Coder-30B-A3B-Instruct-1M-Unsloth''\<rparr>"
proof -
  let ?r = "fst (execute_action unreachable (lit ''action-1'')
          [(lit ''action_prompt'', lit ''Research the market''), (lit ''role'', lit ''Analyst'')]
          [] new_client)"
  have off: "\<forall>request. unreachable request = Timeout \<or> unreachable request = ConnectionError"
    by (simp add: unreachable_def)
  have content: "res_content ?r = connection_sentinel"
    by (simp add: execute_action_def execute_action_try_def generate_response_def unreachable_def
        Let_def split: prod.splits)
  have at: "res_executed_at ?r = lit ''now''"
    by (simp add: execute_action_def execute_action_try_def Let_def split: prod.splits)
  have "?r = \<lparr>res_content = res_content ?r, res_next_actions = res_next_actions ?r,
              res_executed_at = res_executed_at ?r, res_model_used = res_model_used ?r\<rparr>"
    by simp
  then show ?thesis
    unfolding content at execute_action_transport(2) [OF off] execute_action_transport(3) [OF off]
    by (simp add: connection_sentinel_def default_next_actions_def new_client_def)
qed







section \<open>The session history\<close>

lemma role_names:
  "lit ''system'' \<noteq> lit ''user''" "lit ''system'' \<noteq> lit ''assistant''"
  "lit ''user'' \<noteq> lit ''system''" "lit ''assistant'' \<noteq> lit ''system''"
  by (simp_all add: lit_def)

lemma with_prompts_cases:
  "with_prompts system_prompt prompt messages
     = messages @ [\<lparr>msg_role = lit ''user'', msg_content = prompt\<rparr>]
   \<or> (\<exists>sp. system_prompt = Some sp \<and> (messages = [] \<or> \<not> is_system (hd messages)) \<and>
        with_prompts system_prompt prompt messages
          = \<lparr>msg_role = lit ''system'', msg_content = sp\<rparr> # messages
            @ [\<lparr>msg_role = lit ''user'', msg_content = prompt\<rparr>])"
  by (cases messages) (auto simp: with_prompts_def is_system_def split: option.splits)

lemma with_prompts_turns:
  "turns (with_prompts system_prompt prompt messages)
     = turns messages @ [\<lparr>msg_role = lit ''user'', msg_content = prompt\<rparr>]"
  using with_prompts_cases [of system_prompt prompt messages]
  by (auto simp: turns_def is_system_def role_names)

lemma with_prompts_well_formed:
  assumes "well_formed messages"
  shows "well_formed (with_prompts system_prompt prompt messages)"
proof -
  from with_prompts_cases [of system_prompt prompt messages] show ?thesis
  proof
    assume "with_prompts system_prompt prompt messages
             = messages @ [\<lparr>msg_role = lit ''user'', msg_content = prompt\<rparr>]"
    with assms show ?thesis
      by (cases messages) (auto simp: well_formed_def is_system_def role_names)
  next
    assume "\<exists>sp. system_prompt = Some sp \<and> (messages = [] \<or> \<not> is_system (hd messages)) \<and>
        with_prompts system_prompt prompt messages
          = \<lparr>msg_role = lit ''system'', msg_content = sp\<rparr> # messages
            @ [\<lparr>msg_role = lit ''user'', msg_content = prompt\<rparr>]"
    with assms show ?thesis
      by (cases messages) (auto simp: well_formed_def is_system_def role_names)
  qed
qed

lemma well_formed_assistant:
  assumes "well_formed messages" "messages \<noteq> []"
  shows "well_formed (messages @ [\<lparr>msg_role = lit ''assistant'', msg_content = reply\<rparr>])"
  using assms by (cases messages) (auto simp: well_formed_def is_system_def role_names)

lemma with_prompts_not_empty: "with_prompts system_prompt prompt messages \<noteq> []"
  by (simp add: with_prompts_def)

text \<open>
  The effect of one call on the history of any session: the session of the call gets the
  system insert and the user message, then possibly the assistant's reply; every other
  session is left as it is.
\<close>

lemma generate_response_history:
  "\<exists>extra. (extra = [] \<or> (\<exists>reply. extra = [\<lparr>msg_role = lit ''assistant'', msg_content = reply\<rparr>])) \<and>
     session_messages
       (snd (generate_response post prompt model system_prompt temperature max_tokens session_id c))
       sid
     = (if sid = session_id
        then with_prompts system_prompt prompt (session_messages c sid) @ extra
        else session_messages c sid)"
proof (cases "sid = session_id")
  case True
  then show ?thesis
    by (auto simp: generate_response_def get_or_create_conversation_def store_conversation_def
        session_messages_def Let_def split: option.splits http_outcome.splits sum.splits)
next
  case False
  then have "session_messages
       (snd (generate_response post prompt model system_prompt temperature max_tokens session_id c))
       sid = session_messages c sid"
    by (auto simp: generate_response_def get_or_create_conversation_def store_conversation_def
        session_messages_def Let_def split: option.splits http_outcome.splits sum.splits)
  with False show ?thesis by auto
qed

lemma generate_json_response_history:
  "snd (generate_json_response post prompt model system_prompt session_id c)
     = snd (generate_response post prompt model (Some (json_system system_prompt)) (3 / 10) 2000
              session_id c)"
  by (simp add: generate_json_response_def Let_def split: prod.splits)

lemma run_call_history:
  "\<exists>session_id system_prompt prompt extra.
     (extra = [] \<or> (\<exists>reply. extra = [\<lparr>msg_role = lit ''assistant'', msg_content = reply\<rparr>])) \<and>
     session_messages (run_call call c) sid
     = (if sid = session_id
        then with_prompts system_prompt prompt (session_messages c sid) @ extra
        else session_messages c sid)"
proof (cases call)
  case (TextCall post prompt model system_prompt temperature max_tokens session_id)
  with generate_response_history [of post prompt model system_prompt temperature max_tokens session_id c sid]
  show ?thesis by (simp only: run_call.simps) blast
next
  case (JsonCall post prompt model system_prompt session_id)
  with generate_response_history [of post prompt model "Some (json_system system_prompt)" "3 / 10" 2000 session_id c sid]
  show ?thesis by (simp only: run_call.simps generate_json_response_history) blast
qed

lemma run_call_well_formed:
  assumes "well_formed (session_messages c sid)"
  shows "well_formed (session_messages (run_call call c) sid)"
proof -
  from run_call_history [of call c sid] obtain session_id system_prompt prompt extra where
    extra: "extra = [] \<or> (\<exists>reply. extra = [\<lparr>msg_role = lit ''assistant'', msg_content = reply\<rparr>])" and
    h: "session_messages (run_call call c) sid
     = (if sid = session_id
        then with_prompts system_prompt prompt (session_messages c sid) @ extra
        else session_messages c sid)"
    by blast
  show ?thesis
  proof (cases "sid = session_id")
    case False
    with h assms show ?thesis by simp
  next
    case True
    from with_prompts_well_formed [OF assms]
    have wf: "well_formed (with_prompts system_prompt prompt (session_messages c sid))" .
    from extra show ?thesis
    proof
      assume "extra = []"
      with h True wf show ?thesis by simp
    next
      assume "\<exists>reply. extra = [\<lparr>msg_role = lit ''assistant'', msg_content = reply\<rparr>]"
      with h True well_formed_assistant [OF wf with_prompts_not_empty] show ?thesis by auto
    qed
  qed
qed

lemma run_call_turns:
  "prefix (turns (session_messages c sid)) (turns (session_messages (run_call call c) sid))"
proof -
  from run_call_history [of call c sid] obtain session_id system_prompt prompt extra where
    h: "session_messages (run_call call c) sid
     = (if sid = session_id
        then with_prompts system_prompt prompt (session_messages c sid) @ extra
        else session_messages c sid)"
    by blast
  show ?thesis
  proof (cases "sid = session_id")
    case False
    with h show ?thesis by simp
  next
    case True
    with h have "turns (session_messages (run_call call c) sid)
        = turns (session_messages c sid) @ [\<lparr>msg_role = lit ''user'', msg_content = prompt\<rparr>] @ turns extra"
      using with_prompts_turns [of system_prompt prompt "session_messages c sid"]
      by (simp add: turns_def)
    then show ?thesis by simp
  qed
qed

lemma run_calls_well_formed:
  "well_formed (session_messages c sid) \<Longrightarrow> well_formed (session_messages (run_calls calls c) sid)"
  by (induction calls arbitrary: c) (simp_all add: run_call_well_formed)

lemma run_calls_turns:
  "prefix (turns (session_messages c sid)) (turns (session_messages (run_calls calls c) sid))"
proof (induction calls arbitrary: c)
  case Nil
  then show ?case by simp
next
  case (Cons call calls)
  from run_call_turns [of c sid call] Cons [of "run_call call c"] show ?case
    by (auto intro: prefix_order.trans)
qed

lemma run_calls_append: "run_calls (earlier @ later) c = run_calls later (run_calls earlier c)"
  by (induction earlier arbitrary: c) simp_all

lemma well_formed_one_system:
  assumes "well_formed messages"
  shows "length (filter is_system messages) \<le> 1"
    and "\<forall>i < length messages. is_system (messages ! i) \<longrightarrow> i = 0"
proof -
  show "length (filter is_system messages) \<le> 1"
  proof (cases messages)
    case Nil
    then show ?thesis by simp
  next
    case (Cons m rest)
    with assms have "filter is_system rest = []"
      by (auto simp: well_formed_def filter_empty_conv)
    with Cons show ?thesis by simp
  qed
  show "\<forall>i < length messages. is_system (messages ! i) \<longrightarrow> i = 0"
  proof (intro allI impI)
    fix i
    assume i: "i < length messages" and s: "is_system (messages ! i)"
    show "i = 0"
    proof (rule ccontr)
      assume "i \<noteq> 0"
      then obtain j where j: "i = Suc j" by (cases i) auto
      with i have "messages ! i = tl messages ! j" "j < length (tl messages)"
        by (cases messages; simp)+
      then have "messages ! i \<in> set (tl messages)" by (metis nth_mem)
      with assms s show False by (simp add: well_formed_def)
    qed
  qed
qed

text \<open>
  Claim C7. After any sequence of generation calls (plain or structured, on any sessions,
  whatever the endpoint does at each call) on a client that starts without sessions, the
  history of every session holds at most one system message, a system message can only
  be at position 0, and every message is a system, user or assistant message. The user
  and assistant messages are only ever appended: the turns the session had at any
  earlier point of the sequence are an initial segment of its turns at the end.
\<close>

theorem session_history_invariant:
  assumes "conversation_history c0 = Map.empty"
  shows "length (filter is_system (session_messages (run_calls calls c0) sid)) \<le> 1
    \<and> (\<forall>i < length (session_messages (run_calls calls c0) sid).
          is_system (session_messages (run_calls calls c0) sid ! i) \<longrightarrow> i = 0)
    \<and> (\<forall>m \<in> set (session_messages (run_calls calls c0) sid).
          msg_role m = lit ''system'' \<or> msg_role m = lit ''user'' \<or> msg_role m = lit ''assistant'')
    \<and> (\<forall>earlier later. calls = earlier @ later \<longrightarrow>
          prefix (turns (session_messages (run_calls earlier c0) sid))
                 (turns (session_messages (run_calls calls c0) sid)))"
proof -
  from assms have "well_formed (session_messages c0 sid)"
    by (simp add: session_messages_def well_formed_def)
  then have wf: "well_formed (session_messages (run_calls calls c0) sid)"
    by (rule run_calls_well_formed)
  have order: "prefix (turns (session_messages (run_calls earlier c0) sid))
                 (turns (session_messages (run_calls calls c0) sid))"
    if "calls = earlier @ later" for earlier later
    using that run_calls_turns [of "run_calls earlier c0" sid later]
    by (simp add: run_calls_append)
  from well_formed_one_system [OF wf] wf order show ?thesis
    by (simp add: well_formed_def)
qed

text \<open>
  Two calls on the default session: the first fails, the second is answered. The history
  is the system message, the user message of the failed call, the second user message
  and the reply.
\<close>

theorem session_history_invariant_witness:
  "conversation_history new_client = Map.empty
   \<and> session_messages
       (run_calls
          [TextCall unreachable (lit ''first'') None (Some (lit ''be brief'')) (7 / 10) 2000 (lit ''default''),
           TextCall (replying (lit ''done'')) (lit ''second'') None (Some (lit ''be brief'')) (7 / 10) 2000 (lit ''default'')]
          new_client) (lit ''default'')
     = [\<lparr>msg_role = lit ''system'', msg_content = lit ''be brief''\<rparr>,
        \<lparr>msg_role = lit ''user'', msg_content = lit ''first''\<rparr>,
        \<lparr>msg_role = lit ''user'', msg_content = lit ''second''\<rparr>,
        \<lparr>msg_role = lit ''assistant'', msg_content = lit ''done''\<rparr>]
   \<and> length (filter is_system (session_messages
       (run_calls
          [TextCall unreachable (lit ''first'') None (Some (lit ''be brief'')) (7 / 10) 2000 (lit ''default''),
           TextCall (replying (lit ''done'')) (lit ''second'') None (Some (lit ''be brief'')) (7 / 10) 2000 (lit ''default'')]
          new_client) (lit ''default''))) \<le> 1"
proof -
  have start: "conversation_history new_client = Map.empty"
    by (simp add: new_client_def)
  have run: "session_messages
       (run_calls
          [TextCall unreachable (lit ''first'') None (Some (lit ''be brief'')) (7 / 10) 2000 (lit ''default''),
           TextCall (replying (lit ''done'')) (lit ''second'') None (Some (lit ''be brief'')) (7 / 10) 2000 (lit ''default'')]
          new_client) (lit ''default'')
     = [\<lparr>msg_role = lit ''system'', msg_content = lit ''be brief''\<rparr>,
        \<lparr>msg_role = lit ''user'', msg_content = lit ''first''\<rparr>,
        \<lparr>msg_role = lit ''user'', msg_content = lit ''second''\<rparr>,
        \<lparr>msg_role = lit ''assistant'', msg_content = lit ''done''\<rparr>]"
    by (simp add: generate_response_def get_or_create_conversation_def store_conversation_def
        session_messages_def with_prompts_def new_client_def unreachable_def replying_def
        assistant_text_def dict_get_def strip_def is_space_def lit_def Let_def)
  from session_history_invariant [OF start, of _ "lit ''default''"] start run show ?thesis
    by metis
qed

text \<open>
  Claim C8. When a call of \<open>generate_response\<close> fails, it returns a sentinel string that
  starts with \<open>Error: \<close>, and the session's history afterwards is the history before the
  call with the system message inserted if that was due and the user message appended:
  the user message is the last message, no assistant message was added, the list is
  longer than before, and no other session has changed.
\<close>

theorem failed_call_keeps_user_message:
  assumes "failed (post (chat_payload c model temperature max_tokens
             (with_prompts system_prompt prompt (session_messages c session_id))))"
  shows "prefix (lit ''Error: '')
           (fst (generate_response post prompt model system_prompt temperature max_tokens session_id c))
    \<and> session_messages
        (snd (generate_response post prompt model system_prompt temperature max_tokens session_id c))
        session_id
      = with_prompts system_prompt prompt (session_messages c session_id)
    \<and> turns (session_messages
        (snd (generate_response post prompt model system_prompt temperature max_tokens session_id c))
        session_id)
      = turns (session_messages c session_id) @ [\<lparr>msg_role = lit ''user'', msg_content = prompt\<rparr>]
    \<and> last (session_messages
        (snd (generate_response post prompt model system_prompt temperature max_tokens session_id c))
        session_id)
      = \<lparr>msg_role = lit ''user'', msg_content = prompt\<rparr>
    \<and> length (session_messages c session_id)
      < length (session_messages
          (snd (generate_response post prompt model system_prompt temperature max_tokens session_id c))
          session_id)
    \<and> (\<forall>other. other \<noteq> session_id \<longrightarrow>
          session_messages
            (snd (generate_response post prompt model system_prompt temperature max_tokens session_id c))
            other
          = session_messages c other)"
proof -
  let ?c' = "snd (generate_response post prompt model system_prompt temperature max_tokens session_id c)"
  have stored: "?c' = store_conversation session_id
               (with_prompts system_prompt prompt (session_messages c session_id)) c"
    using assms by (rule generate_response_failed(1))
  have reply: "prefix (lit ''Error: '')
           (fst (generate_response post prompt model system_prompt temperature max_tokens session_id c))"
    using assms by (rule generate_response_failed(2))
  have after: "session_messages ?c' session_id
      = with_prompts system_prompt prompt (session_messages c session_id)"
    unfolding stored by (simp add: store_conversation_def session_messages_def)
  have others: "session_messages ?c' other = session_messages c other" if "other \<noteq> session_id" for other
    unfolding stored using that by (simp add: store_conversation_def session_messages_def)
  have grows: "length (session_messages c session_id)
      < length (with_prompts system_prompt prompt (session_messages c session_id))"
    using with_prompts_cases [of system_prompt prompt "session_messages c session_id"] by auto
  have last: "last (with_prompts system_prompt prompt (session_messages c session_id))
      = \<lparr>msg_role = lit ''user'', msg_content = prompt\<rparr>"
    by (simp add: with_prompts_def)
  from reply after others grows last
    with_prompts_turns [of system_prompt prompt "session_messages c session_id"]
  show ?thesis by simp
qed

text \<open>A timed-out call on a fresh client leaves the system message and the user message.\<close>

theorem failed_call_keeps_user_message_witness:
  "failed (too_slow (chat_payload new_client None (7 / 10) 2000
            (with_prompts (Some (lit ''be brief'')) (lit ''hello'')
               (session_messages new_client (lit ''default'')))))
   \<and> fst (generate_response too_slow (lit ''hello'') None (Some (lit ''be brief'')) (7 / 10) 2000
            (lit ''default'') new_client)
     = lit ''Error: Request timed out. Try using a smaller model.''
   \<and> session_messages
       (snd (generate_response too_slow (lit ''hello'') None (Some (lit ''be brief'')) (7 / 10) 2000
               (lit ''default'') new_client)) (lit ''default'')
     = [\<lparr>msg_role = lit ''system'', msg_content = lit ''be brief''\<rparr>,
        \<lparr>msg_role = lit ''user'', msg_content = lit ''hello''\<rparr>]"
proof -
  have f: "failed (too_slow (chat_payload new_client None (7 / 10) 2000
            (with_prompts (Some (lit ''be brief'')) (lit ''hello'')
               (session_messages new_client (lit ''default'')))))"
    by (simp add: failed_def too_slow_def)
  have reply: "fst (generate_response too_slow (lit ''hello'') None (Some (lit ''be brief'')) (7 / 10) 2000
            (lit ''default'') new_client)
     = lit ''Error: Request timed out. Try using a smaller model.''"
    by (simp add: generate_response_def too_slow_def timeout_sentinel_def Let_def split: prod.splits)
  have before: "with_prompts (Some (lit ''be brief'')) (lit ''hello'')
               (session_messages new_client (lit ''default''))
     = [\<lparr>msg_role = lit ''system'', msg_content = lit ''be brief''\<rparr>,
        \<lparr>msg_role = lit ''user'', msg_content = lit ''hello''\<rparr>]"
    by (simp add: with_prompts_def session_messages_def new_client_def lit_def)
  from failed_call_keeps_user_message [where post = too_slow and c = new_client and model = None
      and temperature = "7 / 10" and max_tokens = 2000 and system_prompt = "Some (lit ''be brief'')"
      and prompt = "lit ''hello''" and session_id = "lit ''default''"] f reply before
  show ?thesis
    by simp
qed


section \<open>What the decoder and the brace match can return\<close>

lemma match_frac_length: "match_frac cs = (f, r) \<Longrightarrow> length r \<le> length cs"
  using length_dropWhile_le [of is_digit "drop 2 cs"]
  by (auto simp: match_frac_def split: list.splits if_splits)

lemma match_exp_length: "match_exp cs = (e, r) \<Longrightarrow> length r \<le> length cs"
proof -
  have "length (dropWhile is_digit xs) \<le> Suc (Suc (length xs))" for xs
    using length_dropWhile_le [of is_digit xs] by simp
  then show "match_exp cs = (e, r) \<Longrightarrow> length r \<le> length cs"
    by (cases cs) (auto simp: match_exp_def Let_def split: if_splits list.splits)
qed

lemma match_number_shorter: "match_number cs = Some (v, r) \<Longrightarrow> length r < length cs"
proof -
  assume m: "match_number cs = Some (v, r)"
  define minus where "minus = (case cs of [] \<Rightarrow> [] | m # r \<Rightarrow> if m = 45 then [m] else [])"
  define r0 where "r0 = drop (length minus) cs"
  from m obtain d r1 where r0: "r0 = d # r1"
    by (cases r0) (auto simp: match_number_def minus_def r0_def Let_def)
  define r2 where "r2 = (if d = 48 then r1 else dropWhile is_digit r1)"
  obtain frac r3 where f: "match_frac r2 = (frac, r3)" by (cases "match_frac r2")
  obtain ex r4 where e: "match_exp r3 = (ex, r4)" by (cases "match_exp r3")
  from m r0 f e have "r = r4"
    by (auto simp: match_number_def Let_def minus_def [symmetric] r0_def [symmetric] r2_def [symmetric]
        split: if_splits)
  moreover have "length r4 \<le> length r3" using e by (rule match_exp_length)
  moreover have "length r3 \<le> length r2" using f by (rule match_frac_length)
  moreover have "length r2 \<le> length r1"
    using length_dropWhile_le [of is_digit r1] by (simp add: r2_def)
  moreover have "length r1 < length r0" using r0 by simp
  moreover have "length r0 \<le> length cs" by (simp add: r0_def)
  ultimately show ?thesis by simp
qed

text \<open>
  Every value the scanner returns leaves strictly less input than it was given, so the
  length tests in \<open>parse_array_items\<close> and \<open>parse_object_pairs\<close> never fail.
\<close>

lemma scan_once_shorter:
  "scan_once cs = Some (v, r) \<Longrightarrow> length r < length cs"
  "parse_array_items values cs = Some (v, r) \<Longrightarrow> length r < length cs"
  "parse_object_pairs pairs cs = Some (v, r) \<Longrightarrow> length r < length cs"
proof (induction cs and "values" cs and pairs cs arbitrary: v r and v r and v r
    rule: scan_once_parse_array_items_parse_object_pairs.induct)
  case (1 cs)
  show ?case
  proof (cases cs)
    case Nil
    with 1(3) show ?thesis by (simp add: scan_once.simps)
  next
    case (Cons nextchar rest)
    consider (str) "nextchar = 34" | (obj) "nextchar = 123" | (arr) "nextchar = 91"
      | (other) "nextchar \<noteq> 34" "nextchar \<noteq> 123" "nextchar \<noteq> 91" by blast
    then show ?thesis
    proof cases
      case str
      with 1(3) Cons show ?thesis
        by (auto simp: scan_once.simps split: option.splits dest: scanstring_shorter)
    next
      case obj
      show ?thesis
      proof (cases "skip_ws rest")
        case Nil
        with 1(3) Cons obj show ?thesis by (simp add: scan_once.simps)
      next
        case inner: (Cons c r')
        from skip_ws_Cons [OF inner] have short: "length r' < length rest" .
        show ?thesis
        proof (cases "c = 125")
          case True
          with 1(3) Cons obj inner short show ?thesis by (auto simp: scan_once.simps)
        next
          case False
          with 1(3) Cons obj inner have c: "c = 34" and p: "parse_object_pairs [] r' = Some (v, r)"
            by (auto simp: scan_once.simps split: if_splits)
          from 1(1) [OF Cons _ _ inner False c p] obj have "length r < length r'" by simp
          with short Cons show ?thesis by simp
        qed
      qed
    next
      case arr
      show ?thesis
      proof (cases "skip_ws rest")
        case Nil
        with 1(3) Cons arr show ?thesis by (simp add: scan_once.simps)
      next
        case inner: (Cons c r')
        from skip_ws_Cons [OF inner] have short: "length r' < length rest" .
        show ?thesis
        proof (cases "c = 93")
          case True
          with 1(3) Cons arr inner short show ?thesis by (auto simp: scan_once.simps)
        next
          case False
          with 1(3) Cons arr inner have p: "parse_array_items [] (c # r') = Some (v, r)"
            by (auto simp: scan_once.simps split: if_splits)
          from 1(2) [OF Cons _ _ _ inner False p] arr have "length r < length (c # r')" by simp
          with short Cons show ?thesis by simp
        qed
      qed
    next
      case other
      have lits: "length (lit ''null'') = 4" "length (lit ''true'') = 4" "length (lit ''false'') = 5"
        "length (lit ''NaN'') = 3" "length (lit ''Infinity'') = 8" "length (lit ''-Infinity'') = 9"
        by (simp_all add: lit_def)
      have dropped: "length (drop n cs) < length cs" if "take n cs = w" "length w = n" "0 < n" for n w
        using that Cons by (cases n) auto
      from 1(3) other Cons show ?thesis
        by (auto simp: scan_once.simps simp del: take_Suc_Cons drop_Suc_Cons
            split: if_splits option.splits
            dest!: match_number_shorter dest: dropped [OF _ lits(1)] dropped [OF _ lits(2)]
              dropped [OF _ lits(3)] dropped [OF _ lits(4)] dropped [OF _ lits(5)]
              dropped [OF _ lits(6)])
    qed
  qed
next
  case (2 "values" cs)
  from 2(3) obtain v0 r0 where s: "scan_once cs = Some (v0, r0)" and lt: "length r0 < length cs"
    by (auto simp: parse_array_items.simps split: option.splits if_splits)
  show ?case
  proof (cases "skip_ws r0")
    case Nil
    with 2(3) s lt show ?thesis by (simp add: parse_array_items.simps)
  next
    case (Cons c r')
    from skip_ws_Cons [OF Cons] have short: "length r' < length r0" .
    show ?thesis
    proof (cases "c = 93")
      case True
      with 2(3) s lt Cons short show ?thesis by (auto simp: parse_array_items.simps)
    next
      case False
      with 2(3) s lt Cons have c: "c = 44"
        and p: "parse_array_items (values @ [v0]) (skip_ws r') = Some (v, r)"
        by (auto simp: parse_array_items.simps split: if_splits)
      from 2(2) [OF s refl lt Cons False _ p] c have "length r < length (skip_ws r')" by simp
      with skip_ws_length [of r'] short lt show ?thesis by simp
    qed
  qed
next
  case (3 pairs cs)
  from 3(3) obtain key r0 where k: "scanstring [] cs = Some (key, r0)"
    by (auto simp: parse_object_pairs.simps split: option.splits)
  from scanstring_shorter [OF k] have l0: "length r0 < length cs" .
  from 3(3) k obtain colon r1 where r1: "skip_ws r0 = colon # r1" and colon: "colon = 58"
    by (cases "skip_ws r0") (auto simp: parse_object_pairs.simps split: if_splits)
  from skip_ws_Cons [OF r1] have l1: "length r1 < length r0" .
  from 3(3) k r1 colon obtain v0 r2 where s: "scan_once (skip_ws r1) = Some (v0, r2)"
    and l2: "length r2 < length (skip_ws r1)"
    by (auto simp: parse_object_pairs.simps split: option.splits if_splits)
  have l2': "length r2 < length r1" using l2 skip_ws_length [of r1] by simp
  show ?case
  proof (cases "skip_ws r2")
    case Nil
    with 3(3) k r1 colon s l2 show ?thesis by (simp add: parse_object_pairs.simps)
  next
    case r3: (Cons c r3)
    from skip_ws_Cons [OF r3] have l3: "length r3 < length r2" .
    show ?thesis
    proof (cases "c = 125")
      case True
      with 3(3) k r1 colon s l2 r3 have "r = r3" by (auto simp: parse_object_pairs.simps)
      with l3 l2' l1 l0 show ?thesis by simp
    next
      case False
      with 3(3) k r1 colon s l2 r3 have c: "c = 44"
        by (auto simp: parse_object_pairs.simps split: if_splits)
      from 3(3) k r1 colon s l2 r3 False c obtain q r4 where r4: "skip_ws r3 = q # r4" and q: "q = 34"
        and p: "parse_object_pairs (pairs @ [(key, v0)]) r4 = Some (v, r)"
        by (cases "skip_ws r3") (auto simp: parse_object_pairs.simps split: if_splits)
      from skip_ws_Cons [OF r4] have l4: "length r4 < length r3" .
      have colon': "\<not> colon \<noteq> 58" using colon by simp
      from 3(2) [OF k refl r1 colon' s refl l2 r3 False _ r4 q p] c have "length r < length r4" by simp
      with l4 l3 l2' l1 l0 show ?thesis by simp
    qed
  qed
qed






end
